theory Spec2Isabelle
  imports Complex_Main "HOL-Library.AList"
begin

section \<open>Errors and strings\<close>

text \<open>
  Error objects and thrown values. \<open>Error\<close> is JavaScript's plain \<open>Error(message)\<close>,
  \<open>TypeError\<close> and \<open>SyntaxError\<close> are the engine's own (a property read on \<open>undefined\<close>,
  a failed request, a body that does not parse).
  \<open>AssetLoadError message assetName attempts originalError\<close> is the class declared next to
  \<open>loadAssetWithRetry\<close> with its context bag \<open>{assetName, attempts, originalError}\<close>.
  \<open>ConfigurationError message configType\<close> is the class of \<open>utils/errors.ts\<close>.
  A promise may reject with any value: \<open>undefined\<close>, \<open>null\<close>, an error object, or some
  other value that has no \<open>message\<close> property (\<open>Other\<close>, with a label to tell such values
  apart). Console output is not part of the model.
\<close>

datatype js_error =
    Error string
  | TypeError string
  | SyntaxError string
  | AssetLoadError string string int js_value
  | ConfigurationError string string
and js_value = Undefined | Null | Other string | ErrorObject js_error

fun message :: "js_error \<Rightarrow> string" where
  "message (Error m) = m"
| "message (TypeError m) = m"
| "message (SyntaxError m) = m"
| "message (AssetLoadError m _ _ _) = m"
| "message (ConfigurationError m _) = m"

text \<open>
  Reading \<open>v.message\<close> inside a template literal: on \<open>undefined\<close> and \<open>null\<close> the engine
  throws a \<open>TypeError\<close> (V8's wording); a value without the property prints
  \<open>undefined\<close>.
\<close>

fun isNullish :: "js_value \<Rightarrow> bool" where
  "isNullish Undefined = True"
| "isNullish Null = True"
| "isNullish _ = False"

fun messageText :: "js_value \<Rightarrow> string" where
  "messageText (ErrorObject e) = message e"
| "messageText _ = ''undefined''"

fun messageReadError :: "js_value \<Rightarrow> js_error" where
  "messageReadError Null =
     TypeError (''Cannot read properties of null (reading '' @ [CHR 0x27] @ ''message'' @
                [CHR 0x27] @ '')'')"
| "messageReadError _ =
     TypeError (''Cannot read properties of undefined (reading '' @ [CHR 0x27] @ ''message'' @
                [CHR 0x27] @ '')'')"

fun isConfigurationError :: "js_error \<Rightarrow> bool" where
  "isConfigurationError (ConfigurationError _ _) = True"
| "isConfigurationError _ = False"

text \<open>Decimal rendering of an integer, as a template literal prints an integral number.\<close>

fun showNat :: "nat \<Rightarrow> string" where
  "showNat n =
     (if n < 10 then [''0123456789'' ! n]
      else showNat (n div 10) @ [''0123456789'' ! (n mod 10)])"

definition showInt :: "int \<Rightarrow> string" where
  "showInt i = (if i < 0 then ''-'' @ showNat (nat (- i)) else showNat (nat i))"

text \<open>
  \<open>String.prototype.replace\<close> with a string pattern: only the first occurrence of the
  pattern is replaced. \<open>startsWith\<close> is \<open>String.prototype.startsWith\<close>.
\<close>

fun replaceFirst :: "string \<Rightarrow> string \<Rightarrow> string \<Rightarrow> string" where
  "replaceFirst pat rep [] = (if pat = [] then rep else [])"
| "replaceFirst pat rep (c # cs) =
     (if take (length pat) (c # cs) = pat then rep @ drop (length pat) (c # cs)
      else c # replaceFirst pat rep cs)"

definition startsWith :: "string \<Rightarrow> string \<Rightarrow> bool" where
  "startsWith s p = (take (length p) s = p)"

section \<open>AssetLoader: path resolution\<close>

record asset_loader_config =
  basePath :: string
  useDraco :: bool
  dracoDecoderPath :: string
  enableProgressTracking :: bool

text \<open>\<open>AssetLoader.getAssetPath\<close>.\<close>

definition getAssetPath :: "asset_loader_config \<Rightarrow> string \<Rightarrow> string" where
  "getAssetPath cfg relativePath =
     (let normalizedPath =
            (if startsWith relativePath ''/'' then relativePath else ''/'' @ relativePath)
      in replaceFirst ''//'' ''/'' (basePath cfg @ normalizedPath))"

text \<open>The two shapes the path contract speaks about.\<close>

fun hasDoubleSlash :: "string \<Rightarrow> bool" where
  "hasDoubleSlash (a # b # cs) =
     ((a = CHR ''/'' \<and> b = CHR ''/'') \<or> hasDoubleSlash (b # cs))"
| "hasDoubleSlash _ = False"

fun oneLeadingSlash :: "string \<Rightarrow> bool" where
  "oneLeadingSlash [] = False"
| "oneLeadingSlash [a] = (a = CHR ''/'')"
| "oneLeadingSlash (a # b # _) = (a = CHR ''/'' \<and> b \<noteq> CHR ''/'')"

definition defaultConfig :: asset_loader_config where
  "defaultConfig =
     \<lparr>basePath = ''/'', useDraco = True, dracoDecoderPath = ''/draco/'',
      enableProgressTracking = True\<rparr>"

section \<open>LazyDecoderLoader\<close>

record decoder_config =
  dracoPath :: string
  ktx2Path :: "string option"
  workerLimit :: int

text \<open>The DRACOLoader object, by the three calls made on it.\<close>

record draco_loader =
  decoderPath :: string
  dracoWorkerLimit :: int
  preloaded :: bool

datatype promise_state = Pending | Fulfilled | Rejected js_value

text \<open>
  The fields of a \<open>LazyDecoderLoader\<close>. A promise is named by its index in the promise
  store of the environment; \<open>ktx2Loader\<close> is never assigned by the source.
\<close>

record lazy_decoder_loader =
  dracoLoader :: "draco_loader option"
  ktx2Loader :: "unit option"
  initPromise :: "nat option"
  decoderConfig :: decoder_config
  initialized :: bool

text \<open>
  The part of the JavaScript environment the decoder touches: the promises created so
  far, and a counter of how many times \<open>performInitialization\<close> has run.
\<close>

record js_env =
  promises :: "promise_state list"
  bootstraps :: nat

record decoder_runtime =
  staticInstance :: "lazy_decoder_loader option"
  env :: js_env

text \<open>The private constructor, with the field initialisers of the class.\<close>

definition newLazyDecoderLoader :: "decoder_config \<Rightarrow> lazy_decoder_loader" where
  "newLazyDecoderLoader cfg =
     \<lparr>dracoLoader = None, ktx2Loader = None, initPromise = None,
      decoderConfig = cfg, initialized = False\<rparr>"

text \<open>\<open>LazyDecoderLoader.getInstance\<close>; the static field \<open>instance\<close> is \<open>staticInstance\<close>.\<close>

definition getInstance ::
  "decoder_config option \<Rightarrow> decoder_runtime \<Rightarrow> (js_error + lazy_decoder_loader) \<times> decoder_runtime"
where
  "getInstance cfg rt =
     (case staticInstance rt of
        Some i \<Rightarrow> (Inr i, rt)
      | None \<Rightarrow>
          (case cfg of
             None \<Rightarrow>
               (Inl (Error ''LazyDecoderLoader: config required for first initialization''), rt)
           | Some c \<Rightarrow>
               (Inr (newLazyDecoderLoader c), rt\<lparr>staticInstance := Some (newLazyDecoderLoader c)\<rparr>)))"

definition freshRuntime :: decoder_runtime where
  "freshRuntime = \<lparr>staticInstance = None, env = \<lparr>promises = [], bootstraps = 0\<rparr>\<rparr>"

text \<open>
  What the synchronous body of \<open>performInitialization\<close> meets: it runs to the point where
  the resolve callback is scheduled, or the \<open>DRACOLoader\<close> constructor throws, or a later
  statement throws after the loader has been assigned and preloaded (the probe of
  \<open>window\<close>, say). The enclosing \<open>try\<close> turns a throw into a rejection.
\<close>

datatype boot_env = BootOk | ConstructorThrows js_value | SchedulingThrows js_value

definition newPromise :: "promise_state \<Rightarrow> js_env \<Rightarrow> nat \<times> js_env" where
  "newPromise st e = (length (promises e), e\<lparr>promises := promises e @ [st]\<rparr>)"

definition promiseState :: "js_env \<Rightarrow> nat \<Rightarrow> promise_state" where
  "promiseState e p = (if p < length (promises e) then promises e ! p else Pending)"

definition configuredDraco :: "decoder_config \<Rightarrow> draco_loader" where
  "configuredDraco cfg =
     \<lparr>decoderPath = dracoPath cfg, dracoWorkerLimit = workerLimit cfg, preloaded = True\<rparr>"

text \<open>
  \<open>LazyDecoderLoader.performInitialization\<close>: the executor runs at once, so the call
  returns a promise that is already rejected or still pending; the pending one is
  fulfilled later by the idle callback or the timer (\<open>timerFires\<close>).
\<close>

definition performInitialization ::
  "boot_env \<Rightarrow> lazy_decoder_loader \<Rightarrow> js_env \<Rightarrow> nat \<times> lazy_decoder_loader \<times> js_env"
where
  "performInitialization boot this e =
     (let e1 = e\<lparr>bootstraps := Suc (bootstraps e)\<rparr> in
      case boot of
        ConstructorThrows err \<Rightarrow>
          (let (p, e2) = newPromise (Rejected err) e1 in (p, this, e2))
      | SchedulingThrows err \<Rightarrow>
          (let (p, e2) = newPromise (Rejected err) e1
           in (p, this\<lparr>dracoLoader := Some (configuredDraco (decoderConfig this))\<rparr>, e2))
      | BootOk \<Rightarrow>
          (let (p, e2) = newPromise Pending e1
           in (p, this\<lparr>dracoLoader := Some (configuredDraco (decoderConfig this))\<rparr>, e2)))"

definition timerFires :: "nat \<Rightarrow> js_env \<Rightarrow> js_env" where
  "timerFires p e =
     (if promiseState e p = Pending then e\<lparr>promises := (promises e)[p := Fulfilled]\<rparr> else e)"

text \<open>
  What a caller of \<open>initializeDecoders\<close> holds when the call returns: a promise resolved
  at once (\<open>Immediate\<close>), a promise that adopts the in-flight promise \<open>p\<close>
  (\<open>return this.initPromise\<close>), or the promise of the call that started the
  initialization and is suspended at \<open>await this.initPromise\<close>.
\<close>

datatype init_handle = Immediate | Adopts nat | Awaits nat

text \<open>\<open>LazyDecoderLoader.initializeDecoders\<close>, up to its first suspension.\<close>

definition initializeDecoders ::
  "boot_env \<Rightarrow> lazy_decoder_loader \<Rightarrow> js_env \<Rightarrow> init_handle \<times> lazy_decoder_loader \<times> js_env"
where
  "initializeDecoders boot this e =
     (if initialized this then (Immediate, this, e)
      else case initPromise this of
        Some p \<Rightarrow> (Adopts p, this, e)
      | None \<Rightarrow>
          (let (p, this1, e1) = performInitialization boot this e
           in (Awaits p, this1\<lparr>initPromise := Some p\<rparr>, e1)))"

text \<open>
  The rest of \<open>initializeDecoders\<close> for the call suspended at the \<open>await\<close>: it runs once
  the awaited promise is settled. The result is how that call's own promise settles.
\<close>

definition resumeAwait ::
  "nat \<Rightarrow> lazy_decoder_loader \<Rightarrow> js_env \<Rightarrow> promise_state \<times> lazy_decoder_loader"
where
  "resumeAwait p this e =
     (case promiseState e p of
        Fulfilled \<Rightarrow> (Fulfilled, this\<lparr>initialized := True\<rparr>)
      | Rejected err \<Rightarrow> (Rejected err, this\<lparr>initPromise := None\<rparr>)
      | Pending \<Rightarrow> (Pending, this))"

text \<open>
  How the promise a caller holds settles, read in the environment \<open>e\<close> with the loader
  as it then is: a promise that adopted \<open>p\<close> follows \<open>p\<close>; the promise of the suspended
  call settles as its continuation returns or throws.
\<close>

fun outcome :: "lazy_decoder_loader \<Rightarrow> js_env \<Rightarrow> init_handle \<Rightarrow> promise_state" where
  "outcome this e Immediate = Fulfilled"
| "outcome this e (Adopts p) = promiseState e p"
| "outcome this e (Awaits p) = fst (resumeAwait p this e)"

text \<open>
  Calls issued one after the other with no continuation run in between: the calls of one
  synchronous stretch, concurrent in the sense of the event loop. Each call comes with
  the conditions its bootstrap would meet, should it start one.
\<close>

fun initializeDecodersAll ::
  "boot_env list \<Rightarrow> lazy_decoder_loader \<Rightarrow> js_env \<Rightarrow>
   init_handle list \<times> lazy_decoder_loader \<times> js_env"
where
  "initializeDecodersAll [] this e = ([], this, e)"
| "initializeDecodersAll (boot # boots) this e =
     (let (h, this1, e1) = initializeDecoders boot this e;
          (hs, this2, e2) = initializeDecodersAll boots this1 e1
      in (h # hs, this2, e2))"

section \<open>AssetLoader: cache and loads\<close>

text \<open>
  Objects have identity: an address, with the object's content in the heap. The content
  \<open>'c\<close> of a loaded asset (geometry, materials, image) is opaque; the wireframe stand-in
  of \<open>createPlaceholderModel\<close> is kept by its two parameters, which fix its meshes.
\<close>

type_synonym addr = nat

datatype 'c entity = Loaded 'c | PlaceholderModel real nat

text \<open>
  The loader with its \<open>loadedAssets\<close> map (in insertion order, as a JavaScript \<open>Map\<close>),
  the scene that receives the placeholder (by its \<open>children\<close> array), the objects whose
  GPU resources were disposed, and the network: \<open>network k url\<close> is how the \<open>k\<close>-th request
  of the run ends when it asks for \<open>url\<close>. Progress callbacks are not modelled.
\<close>

record 'c world =
  heap :: "addr \<Rightarrow> 'c entity"
  nextAddr :: addr
  loadedAssets :: "(string \<times> addr) list"
  sceneChildren :: "addr list"
  disposed :: "addr set"
  network :: "nat \<Rightarrow> string \<Rightarrow> js_error + 'c"
  requests :: nat
  assetConfig :: asset_loader_config

definition alloc :: "'c entity \<Rightarrow> 'c world \<Rightarrow> addr \<times> 'c world" where
  "alloc v w = (nextAddr w, w\<lparr>heap := (heap w)(nextAddr w := v), nextAddr := Suc (nextAddr w)\<rparr>)"

text \<open>\<open>Object3D.clone\<close> and \<open>Texture.clone\<close> of three.js: a new object with the content of the old.\<close>

definition clone :: "addr \<Rightarrow> 'c world \<Rightarrow> addr \<times> 'c world" where
  "clone a w = alloc (heap w a) w"

text \<open>One request through \<open>GLTFLoader.load\<close> or \<open>TextureLoader.load\<close>.\<close>

definition request :: "string \<Rightarrow> 'c world \<Rightarrow> (js_error + 'c) \<times> 'c world" where
  "request url w = (network w (requests w) url, w\<lparr>requests := Suc (requests w)\<rparr>)"

text \<open>\<open>AssetLoader.loadGLB\<close>.\<close>

definition loadGLB :: "string \<Rightarrow> 'c world \<Rightarrow> (js_error + addr) \<times> 'c world" where
  "loadGLB path w =
     (let fullPath = getAssetPath (assetConfig w) path in
      case map_of (loadedAssets w) fullPath of
        Some cached \<Rightarrow> (let (a, w1) = clone cached w in (Inr a, w1))
      | None \<Rightarrow>
          (case request fullPath w of
             (Inr gltf, w1) \<Rightarrow>
               (let (scene, w2) = alloc (Loaded gltf) w1
                in (Inr scene,
                    w2\<lparr>loadedAssets := AList.update fullPath scene (loadedAssets w2)\<rparr>))
           | (Inl err, w1) \<Rightarrow> (Inl err, w1)))"

text \<open>\<open>AssetLoader.loadTexture\<close>.\<close>

definition loadTexture :: "string \<Rightarrow> 'c world \<Rightarrow> (js_error + addr) \<times> 'c world" where
  "loadTexture path w =
     (let fullPath = getAssetPath (assetConfig w) path in
      case map_of (loadedAssets w) fullPath of
        Some cached \<Rightarrow> (Inr cached, w)
      | None \<Rightarrow>
          (case request fullPath w of
             (Inr img, w1) \<Rightarrow>
               (let (texture, w2) = alloc (Loaded img) w1
                in (Inr texture,
                    w2\<lparr>loadedAssets := AList.update fullPath texture (loadedAssets w2)\<rparr>))
           | (Inl err, w1) \<Rightarrow> (Inl err, w1)))"

section \<open>Retry with exponential backoff\<close>

text \<open>
  What \<open>loadAssetWithRetry\<close> does besides returning: it invokes the load function and it
  waits. The load function is any operation on a state \<open>'s\<close> that resolves or rejects.
\<close>

datatype retry_event = Invoked | Waited int

text \<open>
  The \<open>for\<close> loop of \<open>loadAssetWithRetry\<close>, from \<open>attempt\<close> on: \<open>Inr\<close> is the early
  \<open>return\<close> of a successful attempt, \<open>Inl\<close> the value of \<open>lastError\<close> when the loop runs out.
  \<open>lastError\<close> holds whatever the last attempt rejected with; the cast \<open>error as Error\<close>
  changes nothing at run time.
\<close>

function retryLoop ::
  "('s \<Rightarrow> (js_value + 'a) \<times> 's) \<Rightarrow> int \<Rightarrow> nat \<Rightarrow> js_value \<Rightarrow> 's \<Rightarrow>
   (js_value + 'a) \<times> 's \<times> retry_event list"
where
  "retryLoop loadFn maxRetries attempt lastError s =
     (if int attempt < maxRetries then
        (case loadFn s of
           (Inr v, s1) \<Rightarrow> (Inr v, s1, [Invoked])
         | (Inl err, s1) \<Rightarrow>
             (let waits = (if int attempt < maxRetries - 1
                           then [Waited (2 ^ attempt * 1000)] else []);
                  (r, s2, evs) = retryLoop loadFn maxRetries (Suc attempt) err s1
              in (r, s2, Invoked # waits @ evs)))
      else (Inl lastError, s, []))"
  by pat_completeness auto
termination
  by (relation "measure (\<lambda>(loadFn, maxRetries, attempt, lastError, s). nat (maxRetries - int attempt))")
    auto

declare retryLoop.simps [simp del]

text \<open>
  \<open>loadAssetWithRetry\<close>. \<open>lastError\<close> starts out \<open>undefined\<close>. After the loop the message is
  built first, and reading \<open>lastError!.message\<close> throws when \<open>lastError\<close> is \<open>undefined\<close> (no
  attempt was made, or the last attempt rejected with \<open>undefined\<close>) or \<open>null\<close>.
\<close>

definition loadAssetWithRetry ::
  "('s \<Rightarrow> (js_value + 'a) \<times> 's) \<Rightarrow> string \<Rightarrow> int \<Rightarrow> 's \<Rightarrow>
   (js_error + 'a) \<times> 's \<times> retry_event list"
where
  "loadAssetWithRetry loadFn assetName maxRetries s =
     (case retryLoop loadFn maxRetries 0 Undefined s of
        (Inr v, s1, evs) \<Rightarrow> (Inr v, s1, evs)
      | (Inl lastError, s1, evs) \<Rightarrow>
          (if isNullish lastError then (Inl (messageReadError lastError), s1, evs)
           else
             (Inl (AssetLoadError
                     (''Failed to load '' @ assetName @ '' after '' @ showInt maxRetries @
                      '' attempts: '' @ messageText lastError)
                     assetName maxRetries lastError),
              s1, evs)))"




section \<open>Placeholder swap\<close>

text \<open>\<open>createPlaceholderModel\<close>: a new group.\<close>

definition createPlaceholderModel :: "real \<Rightarrow> nat \<Rightarrow> 'c world \<Rightarrow> addr \<times> 'c world" where
  "createPlaceholderModel sz color w = alloc (PlaceholderModel sz color) w"

text \<open>
  \<open>Object3D.add\<close> and \<open>Object3D.remove\<close> of three.js on the scene: \<open>add\<close> detaches the
  object from where it hangs and pushes it; \<open>remove\<close> splices it out when it is a child.
\<close>

definition sceneAdd :: "addr \<Rightarrow> 'c world \<Rightarrow> 'c world" where
  "sceneAdd a w = w\<lparr>sceneChildren := remove1 a (sceneChildren w) @ [a]\<rparr>"

definition sceneRemove :: "addr \<Rightarrow> 'c world \<Rightarrow> 'c world" where
  "sceneRemove a w = w\<lparr>sceneChildren := remove1 a (sceneChildren w)\<rparr>"

text \<open>The traversal that disposes the geometry and material of every mesh of the group.\<close>

definition disposeGroup :: "addr \<Rightarrow> 'c world \<Rightarrow> 'c world" where
  "disposeGroup a w = w\<lparr>disposed := insert a (disposed w)\<rparr>"

text \<open>
  The arrow function \<open>() => loader.loadGLB(path, onProgress)\<close> handed to the retry wrapper:
  it rejects with the error object the loader rejected with.
\<close>

definition loadFnOf ::
  "('s \<Rightarrow> (js_error + 'a) \<times> 's) \<Rightarrow> 's \<Rightarrow> (js_value + 'a) \<times> 's"
where
  "loadFnOf load s =
     (case load s of
        (Inr v, s1) \<Rightarrow> (Inr v, s1)
      | (Inl err, s1) \<Rightarrow> (Inl (ErrorObject err), s1))"

text \<open>
  \<open>loadGLBWithPlaceholder\<close>: the placeholder it returns at once, and how the \<open>model\<close>
  promise settles, with the world at that moment. \<open>0x6c6c6c\<close> is 7105644.
\<close>

definition loadGLBWithPlaceholder ::
  "string \<Rightarrow> 'c world \<Rightarrow> addr \<times> (js_error + addr) \<times> 'c world \<times> retry_event list"
where
  "loadGLBWithPlaceholder path w =
     (let (placeholder, w1) = createPlaceholderModel 1.5 7105644 w;
          w2 = sceneAdd placeholder w1
      in case loadAssetWithRetry (loadFnOf (loadGLB path)) path 3 w2 of
           (Inr realModel, w3, evs) \<Rightarrow>
             (placeholder, Inr realModel,
              disposeGroup placeholder (sceneRemove placeholder w3), evs)
         | (Inl err, w3, evs) \<Rightarrow> (placeholder, Inl err, w3, evs))"

section \<open>Transforms\<close>

subsection \<open>Numbers\<close>

text \<open>
  A JavaScript number is a finite value, \<open>NaN\<close> or one of the infinities (the sign of
  zero is not modelled). Finite values are kept as the real numbers they denote; what
  the engine does beyond the real numbers is a parameter: \<open>rnd\<close> turns the exact result
  of an operation on finite values into the number the operation returns (rounding, or
  an infinity on overflow), \<open>mathCos\<close> and \<open>mathSin\<close> are \<open>Math.cos\<close> and \<open>Math.sin\<close> on finite
  values, \<open>toString\<close> is the conversion a template literal and \<open>Array.prototype.join\<close>
  apply, and \<open>toFixed d\<close> is \<open>Number.prototype.toFixed(d)\<close>.
\<close>

datatype jsnum = Num real | NaN | PosInf | NegInf

record engine =
  rnd :: "real \<Rightarrow> jsnum"
  mathCos :: "real \<Rightarrow> jsnum"
  mathSin :: "real \<Rightarrow> jsnum"
  toString :: "jsnum \<Rightarrow> string"
  toFixed :: "nat \<Rightarrow> jsnum \<Rightarrow> string"

fun isFinite :: "jsnum \<Rightarrow> bool" where
  "isFinite (Num x) = True"
| "isFinite NaN = False"
| "isFinite PosInf = False"
| "isFinite NegInf = False"

fun isNaN :: "jsnum \<Rightarrow> bool" where
  "isNaN (Num x) = False"
| "isNaN NaN = True"
| "isNaN PosInf = False"
| "isNaN NegInf = False"

fun negate :: "jsnum \<Rightarrow> jsnum" where
  "negate (Num x) = Num (- x)"
| "negate NaN = NaN"
| "negate PosInf = NegInf"
| "negate NegInf = PosInf"

text \<open>The operators \<open>+\<close>, \<open>-\<close>, \<open>*\<close> and the division by two of \<open>x / 2\<close>.\<close>

fun jsAdd :: "engine \<Rightarrow> jsnum \<Rightarrow> jsnum \<Rightarrow> jsnum" where
  "jsAdd eng (Num x) (Num y) = rnd eng (x + y)"
| "jsAdd eng (Num x) NaN = NaN"
| "jsAdd eng (Num x) PosInf = PosInf"
| "jsAdd eng (Num x) NegInf = NegInf"
| "jsAdd eng NaN b = NaN"
| "jsAdd eng PosInf (Num y) = PosInf"
| "jsAdd eng PosInf NaN = NaN"
| "jsAdd eng PosInf PosInf = PosInf"
| "jsAdd eng PosInf NegInf = NaN"
| "jsAdd eng NegInf (Num y) = NegInf"
| "jsAdd eng NegInf NaN = NaN"
| "jsAdd eng NegInf PosInf = NaN"
| "jsAdd eng NegInf NegInf = NegInf"

definition jsSub :: "engine \<Rightarrow> jsnum \<Rightarrow> jsnum \<Rightarrow> jsnum" where
  "jsSub eng a b = jsAdd eng a (negate b)"

fun jsMul :: "engine \<Rightarrow> jsnum \<Rightarrow> jsnum \<Rightarrow> jsnum" where
  "jsMul eng (Num x) (Num y) = rnd eng (x * y)"
| "jsMul eng (Num x) NaN = NaN"
| "jsMul eng (Num x) PosInf = (if x = 0 then NaN else if 0 < x then PosInf else NegInf)"
| "jsMul eng (Num x) NegInf = (if x = 0 then NaN else if 0 < x then NegInf else PosInf)"
| "jsMul eng NaN b = NaN"
| "jsMul eng PosInf (Num y) = (if y = 0 then NaN else if 0 < y then PosInf else NegInf)"
| "jsMul eng PosInf NaN = NaN"
| "jsMul eng PosInf PosInf = PosInf"
| "jsMul eng PosInf NegInf = NegInf"
| "jsMul eng NegInf (Num y) = (if y = 0 then NaN else if 0 < y then NegInf else PosInf)"
| "jsMul eng NegInf NaN = NaN"
| "jsMul eng NegInf PosInf = NegInf"
| "jsMul eng NegInf NegInf = PosInf"

fun jsHalf :: "engine \<Rightarrow> jsnum \<Rightarrow> jsnum" where
  "jsHalf eng (Num x) = rnd eng (x / 2)"
| "jsHalf eng NaN = NaN"
| "jsHalf eng PosInf = PosInf"
| "jsHalf eng NegInf = NegInf"

fun jsCos :: "engine \<Rightarrow> jsnum \<Rightarrow> jsnum" where
  "jsCos eng (Num x) = mathCos eng x"
| "jsCos eng NaN = NaN"
| "jsCos eng PosInf = NaN"
| "jsCos eng NegInf = NaN"

fun jsSin :: "engine \<Rightarrow> jsnum \<Rightarrow> jsnum" where
  "jsSin eng (Num x) = mathSin eng x"
| "jsSin eng NaN = NaN"
| "jsSin eng PosInf = NaN"
| "jsSin eng NegInf = NaN"

text \<open>\<open>Math.abs\<close>, the comparisons \<open>a > b\<close> and \<open>a <= b\<close>, and \<open>Math.max\<close> of three numbers.\<close>

fun mathAbs :: "jsnum \<Rightarrow> jsnum" where
  "mathAbs (Num x) = Num \<bar>x\<bar>"
| "mathAbs NaN = NaN"
| "mathAbs PosInf = PosInf"
| "mathAbs NegInf = PosInf"

fun greater :: "jsnum \<Rightarrow> jsnum \<Rightarrow> bool" where
  "greater (Num x) (Num y) = (y < x)"
| "greater (Num x) NaN = False"
| "greater (Num x) PosInf = False"
| "greater (Num x) NegInf = True"
| "greater NaN b = False"
| "greater PosInf (Num y) = True"
| "greater PosInf NaN = False"
| "greater PosInf PosInf = False"
| "greater PosInf NegInf = True"
| "greater NegInf b = False"

fun lessEq :: "jsnum \<Rightarrow> jsnum \<Rightarrow> bool" where
  "lessEq (Num x) (Num y) = (x \<le> y)"
| "lessEq (Num x) NaN = False"
| "lessEq (Num x) PosInf = True"
| "lessEq (Num x) NegInf = False"
| "lessEq NaN b = False"
| "lessEq PosInf (Num y) = False"
| "lessEq PosInf NaN = False"
| "lessEq PosInf PosInf = True"
| "lessEq PosInf NegInf = False"
| "lessEq NegInf (Num y) = True"
| "lessEq NegInf NaN = False"
| "lessEq NegInf PosInf = True"
| "lessEq NegInf NegInf = True"

definition mathMax2 :: "jsnum \<Rightarrow> jsnum \<Rightarrow> jsnum" where
  "mathMax2 a b = (if isNaN a \<or> isNaN b then NaN else if greater b a then b else a)"

definition mathMax :: "jsnum \<Rightarrow> jsnum \<Rightarrow> jsnum \<Rightarrow> jsnum" where
  "mathMax a b c = mathMax2 (mathMax2 a b) c"

subsection \<open>Vectors and configured transforms\<close>

datatype vec3 = Vec3 (vx: jsnum) (vy: jsnum) (vz: jsnum)

text \<open>
  An entry of the transform configuration as the parsed JSON has it. The interface
  \<open>ObjectTransform\<close> promises three-element arrays for \<open>position\<close> and \<open>rotation\<close> and a number
  or a three-element array for \<open>scale\<close>, but nothing checks the document: each of the
  three properties may be missing, and an array has the length it has.
\<close>

datatype scale_spec = Uniform jsnum | PerAxis "jsnum list"

record object_transform =
  cfgPosition :: "jsnum list option"
  cfgRotation :: "jsnum list option"
  cfgScale :: "scale_spec option"

text \<open>
  What \<open>this.transforms[objectName]\<close> can deliver: a falsy member of the document
  (\<open>null\<close>, \<open>false\<close>, \<open>0\<close>, an empty string), an entry, or a member that the document does
  not have itself but inherits from \<open>Object.prototype\<close>: a function or the prototype
  object, truthy and without a \<open>position\<close>, \<open>rotation\<close> or \<open>scale\<close> property.
\<close>

datatype member = Falsy | Entry object_transform | Inherited

text \<open>The parsed document: the members it has itself, by name.\<close>

type_synonym transform_config = "string \<rightharpoonup> member"

definition objectPrototypeNames :: "string list" where
  "objectPrototypeNames =
     [''constructor'', ''__defineGetter__'', ''__defineSetter__'', ''hasOwnProperty'',
      ''__lookupGetter__'', ''__lookupSetter__'', ''isPrototypeOf'', ''propertyIsEnumerable'',
      ''toString'', ''valueOf'', ''__proto__'', ''toLocaleString'']"

text \<open>The property read \<open>transforms[objectName]\<close>; \<open>None\<close> is \<open>undefined\<close>.\<close>

definition getMember :: "transform_config \<Rightarrow> string \<Rightarrow> member option" where
  "getMember ts objectName =
     (case ts objectName of
        Some m \<Rightarrow> Some m
      | None \<Rightarrow> (if objectName \<in> set objectPrototypeNames then Some Inherited else None))"

fun positionOf :: "member \<Rightarrow> jsnum list option" where
  "positionOf (Entry t) = cfgPosition t"
| "positionOf _ = None"

fun rotationOf :: "member \<Rightarrow> jsnum list option" where
  "rotationOf (Entry t) = cfgRotation t"
| "rotationOf _ = None"

fun scaleOf :: "member \<Rightarrow> scale_spec option" where
  "scaleOf (Entry t) = cfgScale t"
| "scaleOf _ = None"

text \<open>
  An array element as an operand of a subtraction: past the end of the array the read
  gives \<open>undefined\<close>, which the subtraction converts to \<open>NaN\<close>.
\<close>

definition elementAt :: "jsnum list \<Rightarrow> nat \<Rightarrow> jsnum" where
  "elementAt xs i = (if i < length xs then xs ! i else NaN)"

text \<open>An array of numbers in a template literal: the elements joined by commas.\<close>

fun joinComma :: "string list \<Rightarrow> string" where
  "joinComma [] = []"
| "joinComma [s] = s"
| "joinComma (s # t # ts) = s @ '','' @ joinComma (t # ts)"

definition arrayToString :: "engine \<Rightarrow> jsnum list \<Rightarrow> string" where
  "arrayToString eng xs = joinComma (map (toString eng) xs)"

text \<open>The pattern \<open>[${v.x.toFixed(3)}, ${v.y.toFixed(3)}, ${v.z.toFixed(3)}]\<close>.\<close>

definition fixed3 :: "engine \<Rightarrow> vec3 \<Rightarrow> string" where
  "fixed3 eng v =
     ''['' @ toFixed eng 3 (vx v) @ '', '' @ toFixed eng 3 (vy v) @ '', '' @ toFixed eng 3 (vz v) @ '']''"

subsection \<open>three.js: the part of Object3D the validators touch\<close>

text \<open>
  A matrix is the array of its sixteen elements in column-major order. An object keeps
  its local transform (\<open>position\<close>, \<open>rotation\<close> as Euler angles in XYZ order, \<open>scale\<close>), the
  cached local and world matrices with their flags, and its children, which are objects
  themselves. \<open>matrixWorldAutoUpdate\<close> is true unless the application clears it; releases
  of three.js without that flag behave as if it were set.
\<close>

type_synonym matrix4 = "jsnum list"

record node3d =
  name :: string
  position :: vec3
  rotation :: vec3
  scale :: vec3
  matrix :: matrix4
  matrixWorld :: matrix4
  matrixAutoUpdate :: bool
  matrixWorldAutoUpdate :: bool
  matrixWorldNeedsUpdate :: bool

datatype object3d = Object3D (node: node3d) (children: "object3d list")

text \<open>
  \<open>Matrix4.compose(position, quaternion, scale)\<close>, with the quaternion that three.js keeps in
  step with the Euler angles (\<open>Quaternion.setFromEuler\<close>, order XYZ).
\<close>

definition compose :: "engine \<Rightarrow> vec3 \<Rightarrow> vec3 \<Rightarrow> vec3 \<Rightarrow> matrix4" where
  "compose eng p r s =
     (let c1 = jsCos eng (jsHalf eng (vx r)); c2 = jsCos eng (jsHalf eng (vy r));
          c3 = jsCos eng (jsHalf eng (vz r));
          s1 = jsSin eng (jsHalf eng (vx r)); s2 = jsSin eng (jsHalf eng (vy r));
          s3 = jsSin eng (jsHalf eng (vz r));
          qx = jsAdd eng (jsMul eng (jsMul eng s1 c2) c3) (jsMul eng (jsMul eng c1 s2) s3);
          qy = jsSub eng (jsMul eng (jsMul eng c1 s2) c3) (jsMul eng (jsMul eng s1 c2) s3);
          qz = jsAdd eng (jsMul eng (jsMul eng c1 c2) s3) (jsMul eng (jsMul eng s1 s2) c3);
          qw = jsSub eng (jsMul eng (jsMul eng c1 c2) c3) (jsMul eng (jsMul eng s1 s2) s3);
          x2 = jsAdd eng qx qx; y2 = jsAdd eng qy qy; z2 = jsAdd eng qz qz;
          xx = jsMul eng qx x2; xy = jsMul eng qx y2; xz = jsMul eng qx z2;
          yy = jsMul eng qy y2; yz = jsMul eng qy z2; zz = jsMul eng qz z2;
          wx = jsMul eng qw x2; wy = jsMul eng qw y2; wz = jsMul eng qw z2
      in [jsMul eng (jsSub eng (Num 1) (jsAdd eng yy zz)) (vx s),
          jsMul eng (jsAdd eng xy wz) (vx s),
          jsMul eng (jsSub eng xz wy) (vx s),
          Num 0,
          jsMul eng (jsSub eng xy wz) (vy s),
          jsMul eng (jsSub eng (Num 1) (jsAdd eng xx zz)) (vy s),
          jsMul eng (jsAdd eng yz wx) (vy s),
          Num 0,
          jsMul eng (jsAdd eng xz wy) (vz s),
          jsMul eng (jsSub eng yz wx) (vz s),
          jsMul eng (jsSub eng (Num 1) (jsAdd eng xx yy)) (vz s),
          Num 0,
          vx p, vy p, vz p, Num 1])"

text \<open>\<open>Matrix4.multiplyMatrices(a, b)\<close>: element \<open>(row, col)\<close> sits at index \<open>col * 4 + row\<close>.\<close>

definition multiplyMatrices :: "engine \<Rightarrow> matrix4 \<Rightarrow> matrix4 \<Rightarrow> matrix4" where
  "multiplyMatrices eng a b =
     map (\<lambda>i.
        jsAdd eng
          (jsAdd eng
             (jsAdd eng
                (jsMul eng (elementAt a (i mod 4)) (elementAt b (i div 4 * 4)))
                (jsMul eng (elementAt a (4 + i mod 4)) (elementAt b (i div 4 * 4 + 1))))
             (jsMul eng (elementAt a (8 + i mod 4)) (elementAt b (i div 4 * 4 + 2))))
          (jsMul eng (elementAt a (12 + i mod 4)) (elementAt b (i div 4 * 4 + 3))))
       [0..<16]"

text \<open>\<open>Object3D.updateMatrix\<close>.\<close>

definition updateMatrix :: "engine \<Rightarrow> node3d \<Rightarrow> node3d" where
  "updateMatrix eng this =
     this\<lparr>matrix := compose eng (position this) (rotation this) (scale this),
          matrixWorldNeedsUpdate := True\<rparr>"

text \<open>
  \<open>Object3D.updateMatrixWorld(force)\<close>. \<open>parentWorld\<close> is the world matrix of the parent, if
  the object has one. The object recomposes its local matrix, recomputes its world
  matrix when that is due or forced, and then does the same for each of its children,
  forcing them once its own world matrix was due.
\<close>

fun updateMatrixWorld :: "engine \<Rightarrow> bool \<Rightarrow> matrix4 option \<Rightarrow> object3d \<Rightarrow> object3d" where
  "updateMatrixWorld eng force parentWorld (Object3D this cs) =
     (let o1 = (if matrixAutoUpdate this then updateMatrix eng this else this);
          due = (matrixWorldNeedsUpdate o1 \<or> force);
          o2 = (if due
                then (if matrixWorldAutoUpdate o1
                      then o1\<lparr>matrixWorld :=
                                (case parentWorld of
                                   None \<Rightarrow> matrix o1
                                 | Some pm \<Rightarrow> multiplyMatrices eng pm (matrix o1))\<rparr>
                      else o1)\<lparr>matrixWorldNeedsUpdate := False\<rparr>
                else o1)
      in Object3D o2 (map (updateMatrixWorld eng due (Some (matrixWorld o2))) cs))"

subsection \<open>SceneInitializer\<close>

record scene_config =
  transformsPath :: string
  enableValidation :: bool
  logTransforms :: bool

record initialization_state =
  cssLoaded :: bool
  assetsLoaded :: bool
  sceneReady :: bool
  renderingStarted :: bool

text \<open>\<open>transforms\<close> is \<open>null\<close> until the configuration has been loaded.\<close>

record scene_initializer =
  sceneConfig :: scene_config
  initState :: initialization_state
  transforms :: "transform_config option"

record transform_validation_result =
  valid :: bool
  errors :: "string list"
  warnings :: "string list"

text \<open>
  How the request for the configuration file ends, should it be made: \<open>fetch\<close> rejects,
  the response is not ok (with its status text), the body does not parse, the body is
  a JSON object, or the body is the JSON text \<open>null\<close>.
\<close>

datatype fetch_result =
    FetchRejects js_error
  | ResponseNotOk string
  | JsonRejects js_error
  | ResponseJson transform_config
  | ResponseJsonNull

text \<open>\<open>SceneInitializer.loadTransforms\<close>; it resolves with what \<open>this.transforms\<close> then holds.\<close>

definition loadTransforms ::
  "fetch_result \<Rightarrow> scene_initializer \<Rightarrow>
   (js_error + transform_config option) \<times> scene_initializer"
where
  "loadTransforms fetched si =
     (case transforms si of
        Some ts \<Rightarrow> (Inr (Some ts), si)
      | None \<Rightarrow>
          (case fetched of
             FetchRejects err \<Rightarrow> (Inl err, si)
           | ResponseNotOk statusText \<Rightarrow>
               (Inl (Error (''Failed to load transforms: '' @ statusText)), si)
           | JsonRejects err \<Rightarrow> (Inl err, si)
           | ResponseJson ts \<Rightarrow> (Inr (Some ts), si\<lparr>transforms := Some ts\<rparr>)
           | ResponseJsonNull \<Rightarrow> (Inr None, si\<lparr>transforms := None\<rparr>)))"

text \<open>The three absolute differences of an attribute, and \<open>Array.prototype.some\<close> over them.\<close>

definition axisDiffs :: "engine \<Rightarrow> vec3 \<Rightarrow> jsnum list \<Rightarrow> jsnum list" where
  "axisDiffs eng live expected =
     [mathAbs (jsSub eng (vx live) (elementAt expected 0)),
      mathAbs (jsSub eng (vy live) (elementAt expected 1)),
      mathAbs (jsSub eng (vz live) (elementAt expected 2))]"

definition someExceeds :: "jsnum \<Rightarrow> jsnum list \<Rightarrow> bool" where
  "someExceeds tolerance ds = list_ex (\<lambda>d. greater d tolerance) ds"

text \<open>
  \<open>expectedScale\<close>: a number is expanded to an array of three, anything else is taken as
  it is, \<open>undefined\<close> included.
\<close>

fun expectedScaleOf :: "scale_spec option \<Rightarrow> jsnum list option" where
  "expectedScaleOf None = None"
| "expectedScaleOf (Some (Uniform k)) = Some [k, k, k]"
| "expectedScaleOf (Some (PerAxis xs)) = Some xs"

text \<open>\<open>String(error)\<close> for an error object: its name, a colon and its message.\<close>

fun errorName :: "js_error \<Rightarrow> string" where
  "errorName (Error _) = ''Error''"
| "errorName (TypeError _) = ''TypeError''"
| "errorName (SyntaxError _) = ''SyntaxError''"
| "errorName (AssetLoadError _ _ _ _) = ''AssetLoadError''"
| "errorName (ConfigurationError _ _) = ''ConfigurationError''"

definition errorToString :: "js_error \<Rightarrow> string" where
  "errorToString e =
     (if message e = [] then errorName e else errorName e @ '': '' @ message e)"

text \<open>
  The comparison of one attribute, which the source writes out three times: when some
  axis exceeds the tolerance the result becomes invalid and gets one message.
\<close>

definition mismatchMessage :: "engine \<Rightarrow> string \<Rightarrow> string \<Rightarrow> jsnum list \<Rightarrow> vec3 \<Rightarrow> string" where
  "mismatchMessage eng attribute objectName expected live =
     attribute @ '' mismatch for '' @ [CHR 0x27] @ objectName @ [CHR 0x27] @
     '': expected '' @ arrayToString eng expected @ '', got '' @ fixed3 eng live"

definition compareAttribute ::
  "engine \<Rightarrow> string \<Rightarrow> string \<Rightarrow> jsnum list \<Rightarrow> vec3 \<Rightarrow> jsnum \<Rightarrow>
   transform_validation_result \<Rightarrow> transform_validation_result"
where
  "compareAttribute eng attribute objectName expected live tolerance r =
     (if someExceeds tolerance (axisDiffs eng live expected)
      then r\<lparr>valid := False,
             errors := errors r @ [mismatchMessage eng attribute objectName expected live]\<rparr>
      else r)"

text \<open>The \<open>catch\<close> block of \<open>validateTransforms\<close>: the messages pushed so far stay.\<close>

definition caught :: "js_error \<Rightarrow> transform_validation_result \<Rightarrow> transform_validation_result" where
  "caught err r = r\<lparr>valid := False, errors := errors r @ [''Validation error: '' @ errorToString err]\<rparr>"

text \<open>
  The errors of reading element 0 of a property that is \<open>undefined\<close>, and of reading a
  member of \<open>null\<close> (V8's wording).
\<close>

definition indexReadError :: js_error where
  "indexReadError =
     TypeError (''Cannot read properties of undefined (reading '' @ [CHR 0x27] @ ''0'' @
                [CHR 0x27] @ '')'')"

definition memberReadError :: "string \<Rightarrow> js_error" where
  "memberReadError objectName =
     TypeError (''Cannot read properties of null (reading '' @ [CHR 0x27] @ objectName @
                [CHR 0x27] @ '')'')"

text \<open>
  The body of the \<open>try\<close> block of \<open>validateTransforms\<close> once the configuration is at hand,
  with the \<open>catch\<close> block where an element read throws: the lookup of the object's entry
  and the three comparisons.
\<close>

definition checkAgainst ::
  "engine \<Rightarrow> transform_config \<Rightarrow> string \<Rightarrow> node3d \<Rightarrow> jsnum \<Rightarrow> transform_validation_result"
where
  "checkAgainst eng ts objectName obj tolerance =
     (let r0 = \<lparr>valid = True, errors = [], warnings = []\<rparr>;
          missing = r0\<lparr>warnings :=
                         [''No transform configuration found for '' @ [CHR 0x27] @ objectName @
                          [CHR 0x27]]\<rparr>
      in case getMember ts objectName of
           None \<Rightarrow> missing
         | Some Falsy \<Rightarrow> missing
         | Some expectedTransforms \<Rightarrow>
             (case positionOf expectedTransforms of
                None \<Rightarrow> caught indexReadError r0
              | Some expectedPosition \<Rightarrow>
                  (let r1 = compareAttribute eng ''Position'' objectName expectedPosition
                              (position obj) tolerance r0
                   in case rotationOf expectedTransforms of
                        None \<Rightarrow> caught indexReadError r1
                      | Some expectedRotation \<Rightarrow>
                          (let r2 = compareAttribute eng ''Rotation'' objectName expectedRotation
                                      (rotation obj) tolerance r1
                           in case expectedScaleOf (scaleOf expectedTransforms) of
                                None \<Rightarrow> r2
                              | Some expectedScale \<Rightarrow>
                                  compareAttribute eng ''Scale'' objectName expectedScale
                                    (scale obj) tolerance r2))))"

text \<open>\<open>SceneInitializer.validateTransforms\<close>; \<open>obj\<close> holds the fields of the live object.\<close>

definition validateTransforms ::
  "engine \<Rightarrow> fetch_result \<Rightarrow> string \<Rightarrow> node3d \<Rightarrow> jsnum \<Rightarrow> scene_initializer \<Rightarrow>
   transform_validation_result \<times> scene_initializer"
where
  "validateTransforms eng fetched objectName obj tolerance si =
     (if \<not> enableValidation (sceneConfig si)
      then (\<lparr>valid = True, errors = [], warnings = []\<rparr>, si)
      else case transforms si of
        Some ts \<Rightarrow> (checkAgainst eng ts objectName obj tolerance, si)
      | None \<Rightarrow>
          (case loadTransforms fetched si of
             (Inr loaded, si1) \<Rightarrow>
               (case transforms si1 of
                  Some ts \<Rightarrow> (checkAgainst eng ts objectName obj tolerance, si1)
                | None \<Rightarrow>
                    (caught (memberReadError objectName)
                       \<lparr>valid = True, errors = [], warnings = []\<rparr>, si1))
           | (Inl err, si1) \<Rightarrow>
               (caught err \<lparr>valid = True, errors = [], warnings = []\<rparr>, si1)))"




subsection \<open>TransformValidator\<close>

text \<open>
  A snapshot. A component that an imported snapshot lacks reads as \<open>undefined\<close> and enters
  the arithmetic as \<open>NaN\<close>; it is kept as \<open>NaN\<close>.
\<close>

record transform_snapshot =
  snapName :: string
  snapPosition :: vec3
  snapRotation :: vec3
  snapScale :: vec3
  worldMatrix :: matrix4
  timestamp :: int
  environment :: "string option"

record transform_comparison =
  objectName :: string
  positionDiff :: vec3
  rotationDiff :: vec3
  scaleDiff :: vec3
  maxPositionDiff :: jsnum
  maxRotationDiff :: jsnum
  maxScaleDiff :: jsnum
  withinTolerance :: bool
  issues :: "string list"

text \<open>
  \<open>TransformValidator.captureSnapshot\<close>: the snapshot and the object as the call leaves it.
  \<open>parentWorld\<close> is the world matrix of the object's parent, if it has one; \<open>now\<close> is the
  reading of \<open>Date.now()\<close>.
\<close>

definition captureSnapshot ::
  "engine \<Rightarrow> matrix4 option \<Rightarrow> object3d \<Rightarrow> string option \<Rightarrow> int \<Rightarrow>
   transform_snapshot \<times> object3d"
where
  "captureSnapshot eng parentWorld obj env_label now =
     (let o1 = updateMatrixWorld eng True parentWorld obj;
          this = node o1
      in (\<lparr>snapName = (if name this = [] then ''unnamed'' else name this),
           snapPosition = position this, snapRotation = rotation this, snapScale = scale this,
           worldMatrix = matrixWorld this, timestamp = now, environment = env_label\<rparr>,
          o1))"

definition absDiff3 :: "engine \<Rightarrow> vec3 \<Rightarrow> vec3 \<Rightarrow> vec3" where
  "absDiff3 eng a b =
     Vec3 (mathAbs (jsSub eng (vx a) (vx b))) (mathAbs (jsSub eng (vy a) (vy b)))
          (mathAbs (jsSub eng (vz a) (vz b)))"

definition max3 :: "vec3 \<Rightarrow> jsnum" where
  "max3 v = mathMax (vx v) (vy v) (vz v)"

text \<open>\<open>TransformValidator.compareSnapshots\<close>; the validator is its \<open>tolerance\<close>.\<close>

definition compareSnapshots ::
  "engine \<Rightarrow> jsnum \<Rightarrow> transform_snapshot \<Rightarrow> transform_snapshot \<Rightarrow> transform_comparison"
where
  "compareSnapshots eng tolerance local production =
     (let pd = absDiff3 eng (snapPosition local) (snapPosition production);
          rd = absDiff3 eng (snapRotation local) (snapRotation production);
          sd = absDiff3 eng (snapScale local) (snapScale production);
          mp = max3 pd; mr = max3 rd; ms = max3 sd
      in \<lparr>objectName = snapName local,
          positionDiff = pd, rotationDiff = rd, scaleDiff = sd,
          maxPositionDiff = mp, maxRotationDiff = mr, maxScaleDiff = ms,
          withinTolerance = (lessEq mp tolerance \<and> lessEq mr tolerance \<and> lessEq ms tolerance),
          issues =
            (if greater mp tolerance
             then [''Position difference ('' @ toFixed eng 6 mp @ '') exceeds tolerance ('' @
                   toString eng tolerance @ '')'']
             else []) @
            (if greater mr tolerance
             then [''Rotation difference ('' @ toFixed eng 6 mr @ '') exceeds tolerance ('' @
                   toString eng tolerance @ '')'']
             else []) @
            (if greater ms tolerance
             then [''Scale difference ('' @ toFixed eng 6 ms @ '') exceeds tolerance ('' @
                   toString eng tolerance @ '')'']
             else [])\<rparr>)"

text \<open>
  The object and its descendants with the cached matrices and their flag blanked: what
  is left is every other field of every object, and the shape of the tree.
\<close>

fun withoutMatrices :: "object3d \<Rightarrow> object3d" where
  "withoutMatrices (Object3D this cs) =
     Object3D (this\<lparr>matrix := [], matrixWorld := [], matrixWorldNeedsUpdate := False\<rparr>)
       (map withoutMatrices cs)"

definition finite3 :: "vec3 \<Rightarrow> bool" where
  "finite3 v = (isFinite (vx v) \<and> isFinite (vy v) \<and> isFinite (vz v))"

section \<open>Examples\<close>

text \<open>
  An empty loader and scene. The network serves two files of the repository, but not on
  the first request of the run (a transient failure); every other URL is not found.
  \<open>onlineWorld\<close> is the same world once that first request is past.
\<close>

definition demoWorld :: "string world" where
  "demoWorld =
     \<lparr>heap = (\<lambda>_. PlaceholderModel 0 0), nextAddr = 0, loadedAssets = [],
      sceneChildren = [], disposed = {},
      network = (\<lambda>k url. if 1 \<le> k \<and> (url = ''/model/truck.glb'' \<or> url = ''/optimized/logo.webp'')
                          then Inr url else Inl (Error ''Not Found'')),
      requests = 0, assetConfig = defaultConfig\<rparr>"

definition onlineWorld :: "string world" where
  "onlineWorld = demoWorld\<lparr>requests := 1\<rparr>"

text \<open>
  A decoder configuration, the environment before any promise exists, and the loader and
  environment after three calls whose bootstrap failed in the constructor.
\<close>

definition demoDecoderConfig :: decoder_config where
  "demoDecoderConfig = \<lparr>dracoPath = ''/draco/'', ktx2Path = None, workerLimit = 4\<rparr>"

definition emptyEnv :: js_env where
  "emptyEnv = \<lparr>promises = [], bootstraps = 0\<rparr>"

definition rejectedLoader :: lazy_decoder_loader where
  "rejectedLoader = (newLazyDecoderLoader demoDecoderConfig)\<lparr>initPromise := Some 0\<rparr>"

definition rejectedEnv :: js_env where
  "rejectedEnv =
     \<lparr>promises = [Rejected (ErrorObject (TypeError ''DRACOLoader is not a constructor''))],
      bootstraps = 1\<rparr>"

definition pendingLoader :: lazy_decoder_loader where
  "pendingLoader =
     (newLazyDecoderLoader demoDecoderConfig)
       \<lparr>dracoLoader := Some (configuredDraco demoDecoderConfig), initPromise := Some 0\<rparr>"

definition pendingEnv :: js_env where
  "pendingEnv = \<lparr>promises = [Pending], bootstraps = 1\<rparr>"

text \<open>
  An engine for the examples. Its arithmetic is exact, which is what floating-point
  arithmetic gives on the numbers of the examples (small multiples of one quarter);
  \<open>decimalFixed d\<close> prints \<open>d\<close> decimals, rounding half away from zero, as \<open>toFixed\<close> does on
  the exact value, and one decimal stands in for \<open>toString\<close>, which prints the configured
  values of the examples as JavaScript does.
\<close>

definition decimalFixed :: "nat \<Rightarrow> real \<Rightarrow> string" where
  "decimalFixed d x =
     (let n = nat \<lfloor>\<bar>x\<bar> * 10 ^ d + 1 / 2\<rfloor>;
          ds = showNat n;
          padded = replicate (Suc d - length ds) (CHR ''0'') @ ds
      in (if x < 0 then ''-'' else []) @ take (length padded - d) padded @
         (if d = 0 then [] else ''.'' @ drop (length padded - d) padded))"

fun printNumber :: "(real \<Rightarrow> string) \<Rightarrow> jsnum \<Rightarrow> string" where
  "printNumber f (Num x) = f x"
| "printNumber f NaN = ''NaN''"
| "printNumber f PosInf = ''Infinity''"
| "printNumber f NegInf = ''-Infinity''"

definition exactEngine :: engine where
  "exactEngine =
     \<lparr>rnd = Num, mathCos = (\<lambda>x. Num (cos x)), mathSin = (\<lambda>x. Num (sin x)),
      toString = printNumber (decimalFixed 1),
      toFixed = (\<lambda>d. printNumber (decimalFixed d))\<rparr>"

text \<open>
  A configuration: the truck with position, rotation and a uniform scale, and a display
  with a position and a rotation but no scale.
\<close>

definition truckTransform :: object_transform where
  "truckTransform =
     \<lparr>cfgPosition = Some [Num 1.5, Num (- 1.5), Num (- 5.5)],
      cfgRotation = Some [Num 0, Num 0.5, Num 0],
      cfgScale = Some (Uniform (Num 1.5))\<rparr>"

definition displayTransform :: object_transform where
  "displayTransform =
     \<lparr>cfgPosition = Some [Num 0, Num 2.5, Num 0],
      cfgRotation = Some [Num 0, Num 0, Num 0],
      cfgScale = None\<rparr>"

definition demoTransforms :: transform_config where
  "demoTransforms =
     [''truck'' \<mapsto> Entry truckTransform, ''telematicsDisplay'' \<mapsto> Entry displayTransform]"

definition identity4 :: matrix4 where
  "identity4 =
     [Num 1, Num 0, Num 0, Num 0, Num 0, Num 1, Num 0, Num 0,
      Num 0, Num 0, Num 1, Num 0, Num 0, Num 0, Num 0, Num 1]"

text \<open>
  The truck as placed by the configuration, the truck a quarter off on the z axis, the
  truck with a position that is not a number, and the display scaled by two.
\<close>

definition placedTruck :: node3d where
  "placedTruck =
     \<lparr>name = ''truck'', position = Vec3 (Num 1.5) (Num (- 1.5)) (Num (- 5.5)),
      rotation = Vec3 (Num 0) (Num 0.5) (Num 0),
      scale = Vec3 (Num 1.5) (Num 1.5) (Num 1.5), matrix = identity4, matrixWorld = identity4,
      matrixAutoUpdate = True, matrixWorldAutoUpdate = True, matrixWorldNeedsUpdate = False\<rparr>"

definition shiftedTruck :: node3d where
  "shiftedTruck = placedTruck\<lparr>position := Vec3 (Num 1.5) (Num (- 1.5)) (Num (- 5.75))\<rparr>"

definition lostTruck :: node3d where
  "lostTruck = placedTruck\<lparr>position := Vec3 NaN (Num (- 1.5)) (Num (- 5.5))\<rparr>"


text \<open>An initializer that has not loaded its configuration yet, and one with validation off.\<close>

definition demoInitializer :: scene_initializer where
  "demoInitializer =
     \<lparr>sceneConfig = \<lparr>transformsPath = ''/config/objectTransforms.json'',
                      enableValidation = True, logTransforms = True\<rparr>,
      initState = \<lparr>cssLoaded = False, assetsLoaded = False, sceneReady = False,
                   renderingStarted = False\<rparr>,
      transforms = None\<rparr>"


text \<open>
  A sensor moved to (1, 2, 3) since its matrices were last computed, with a child whose
  matrices are as stale; the same sensor alone.
\<close>

definition movedSensor :: node3d where
  "movedSensor =
     \<lparr>name = ''sensor'', position = Vec3 (Num 1) (Num 2) (Num 3),
      rotation = Vec3 (Num 0) (Num 0) (Num 0), scale = Vec3 (Num 1) (Num 1) (Num 1),
      matrix = identity4, matrixWorld = identity4,
      matrixAutoUpdate = True, matrixWorldAutoUpdate = True, matrixWorldNeedsUpdate = False\<rparr>"

definition sensorProbe :: node3d where
  "sensorProbe = movedSensor\<lparr>name := ''probe'', position := Vec3 (Num 0) (Num 0) (Num 0)\<rparr>"

definition movedObject :: object3d where
  "movedObject = Object3D movedSensor [Object3D sensorProbe []]"

text \<open>Snapshots: of the placed truck, and of the truck whose position is not a number.\<close>

definition truckSnapshot :: transform_snapshot where
  "truckSnapshot = fst (captureSnapshot exactEngine None (Object3D placedTruck []) (Some ''local'') 0)"

definition lostSnapshot :: transform_snapshot where
  "lostSnapshot = fst (captureSnapshot exactEngine None (Object3D lostTruck []) (Some ''local'') 0)"

section \<open>Decimal rendering: evaluation\<close>

declare showNat.simps [simp del]

lemma showNat_numeral [simp]:
  "showNat (numeral k) =
     (if (numeral k :: nat) < 10 then [''0123456789'' ! numeral k]
      else showNat (numeral k div 10) @ [''0123456789'' ! (numeral k mod 10)])"
  by (rule showNat.simps)

lemma showNat_small [simp]: "showNat 0 = ''0''" "showNat (Suc 0) = ''1''"
  by (simp_all add: showNat.simps)

section \<open>Path resolution: results\<close>

lemma replaceFirst_no_double_slash:
  "\<not> hasDoubleSlash s \<Longrightarrow> replaceFirst ''//'' ''/'' s = s"
  by (induction s rule: hasDoubleSlash.induct) auto

lemma replaceFirst_junction:
  "\<not> hasDoubleSlash (xs @ ''/'') \<Longrightarrow>
   replaceFirst ''//'' ''/'' (xs @ ''//'' @ ys) = xs @ ''/'' @ ys"
proof (induction xs)
  case Nil
  then show ?case by simp
next
  case (Cons a xs)
  then show ?case
    by (cases xs) (auto split: if_splits)
qed

lemma hasDoubleSlash_append:
  "hasDoubleSlash (xs @ ys) =
     (hasDoubleSlash xs \<or> hasDoubleSlash ys \<or>
      (xs \<noteq> [] \<and> ys \<noteq> [] \<and> last xs = CHR ''/'' \<and> hd ys = CHR ''/''))"
proof (induction xs rule: hasDoubleSlash.induct)
  fix a b cs
  assume "hasDoubleSlash ((b # cs) @ ys) =
     (hasDoubleSlash (b # cs) \<or> hasDoubleSlash ys \<or>
      (b # cs \<noteq> [] \<and> ys \<noteq> [] \<and> last (b # cs) = CHR ''/'' \<and> hd ys = CHR ''/''))"
  then show "hasDoubleSlash ((a # b # cs) @ ys) =
     (hasDoubleSlash (a # b # cs) \<or> hasDoubleSlash ys \<or>
      (a # b # cs \<noteq> [] \<and> ys \<noteq> [] \<and> last (a # b # cs) = CHR ''/'' \<and>
       hd ys = CHR ''/''))"
    by auto
next
  show "hasDoubleSlash ([] @ ys) =
     (hasDoubleSlash [] \<or> hasDoubleSlash ys \<or>
      ([] \<noteq> [] \<and> ys \<noteq> [] \<and> last [] = CHR ''/'' \<and> hd ys = CHR ''/''))"
    by simp
next
  fix v
  show "hasDoubleSlash ([v] @ ys) =
     (hasDoubleSlash [v] \<or> hasDoubleSlash ys \<or>
      ([v] \<noteq> [] \<and> ys \<noteq> [] \<and> last [v] = CHR ''/'' \<and> hd ys = CHR ''/''))"
    by (cases ys) auto
qed

lemma oneLeadingSlash_iff:
  "oneLeadingSlash s \<longleftrightarrow> s \<noteq> [] \<and> hd s = CHR ''/'' \<and> \<not> startsWith s ''//''"
  by (cases s rule: oneLeadingSlash.cases) (auto simp: startsWith_def)

lemma hasDoubleSlash_prefix: "startsWith s ''//'' \<Longrightarrow> hasDoubleSlash s"
  by (cases s rule: hasDoubleSlash.cases) (auto simp: startsWith_def)

text \<open>
  Claim C7 (as amended). When the configured base path is empty or begins with a slash,
  and neither the base path nor the relative path contains a double slash, the path
  returned by \<open>getAssetPath\<close> starts with exactly one slash and contains no double slash.
  The function is a total function of the configuration and its argument: it reads
  nothing else and has no failing branch.
\<close>

theorem getAssetPath_normal_form:
  assumes base: "basePath cfg = [] \<or> hd (basePath cfg) = CHR ''/''"
    and nb: "\<not> hasDoubleSlash (basePath cfg)"
    and nr: "\<not> hasDoubleSlash relativePath"
  shows "oneLeadingSlash (getAssetPath cfg relativePath) \<and>
         \<not> hasDoubleSlash (getAssetPath cfg relativePath)"
proof -
  define n where
    "n = (if startsWith relativePath ''/'' then relativePath else ''/'' @ relativePath)"
  have n_hd: "n \<noteq> [] \<and> hd n = CHR ''/''"
    by (cases relativePath) (auto simp: n_def startsWith_def)
  have n_nd: "\<not> hasDoubleSlash n"
    using nr by (cases relativePath) (auto simp: n_def startsWith_def)
  obtain n' where n': "n = CHR ''/'' # n'"
    using n_hd by (cases n) auto
  define b where "b = basePath cfg"
  have res: "getAssetPath cfg relativePath = replaceFirst ''//'' ''/'' (b @ n)"
    by (simp add: getAssetPath_def n_def b_def)
  have "\<exists>r. getAssetPath cfg relativePath = r \<and> r \<noteq> [] \<and> hd r = CHR ''/'' \<and>
          \<not> hasDoubleSlash r"
  proof (cases "b \<noteq> [] \<and> last b = CHR ''/''")
    case True
    then obtain b' where b': "b = b' @ ''/''"
      by (metis append_butlast_last_id)
    have nb': "\<not> hasDoubleSlash (b' @ ''/'')"
      using nb b' b_def by simp
    have "replaceFirst ''//'' ''/'' (b @ n) = b' @ ''/'' @ n'"
      using replaceFirst_junction[OF nb', of n'] b' n' by simp
    then have r: "getAssetPath cfg relativePath = b' @ n"
      using res n' by simp
    have "\<not> hasDoubleSlash (b' @ n)"
      using nb' n_nd n_hd by (auto simp: hasDoubleSlash_append)
    moreover have "b' @ n \<noteq> []"
      using n_hd by simp
    moreover have "hd (b' @ n) = CHR ''/''"
      using base b' b_def n_hd by (auto simp: hd_append)
    ultimately show ?thesis
      using r by simp
  next
    case False
    then have "\<not> hasDoubleSlash (b @ n)"
      using nb n_nd b_def by (auto simp: hasDoubleSlash_append)
    then have r: "getAssetPath cfg relativePath = b @ n"
      and nd: "\<not> hasDoubleSlash (b @ n)"
      using res by (simp_all add: replaceFirst_no_double_slash)
    have "hd (b @ n) = CHR ''/''"
      using base b_def n_hd by (auto simp: hd_append)
    then show ?thesis
      using r nd n_hd by simp
  qed
  then show ?thesis
    using hasDoubleSlash_prefix by (auto simp: oneLeadingSlash_iff)
qed

text \<open>The shipped configuration (base path \<open>/\<close>) on a path of the repository.\<close>

theorem getAssetPath_normal_form_witness:
  "oneLeadingSlash (getAssetPath defaultConfig ''model/truck.glb'') \<and>
   \<not> hasDoubleSlash (getAssetPath defaultConfig ''model/truck.glb'') \<and>
   getAssetPath defaultConfig ''model/truck.glb'' = ''/model/truck.glb''"
proof -
  have "basePath defaultConfig = [] \<or> hd (basePath defaultConfig) = CHR ''/''"
    by (simp add: defaultConfig_def)
  moreover have "\<not> hasDoubleSlash (basePath defaultConfig)"
    by (simp add: defaultConfig_def)
  moreover have "\<not> hasDoubleSlash ''model/truck.glb''"
    by simp
  ultimately show ?thesis
    using getAssetPath_normal_form[of defaultConfig "''model/truck.glb''"]
    by (simp add: getAssetPath_def defaultConfig_def startsWith_def)
qed

text \<open>
  Claim C7 as stated fails: only the first double slash is replaced, so a relative path
  that carries one of its own keeps it.
\<close>

theorem getAssetPath_double_slash_counterexample:
  "getAssetPath defaultConfig ''model//truck.glb'' = ''/model//truck.glb'' \<and>
   hasDoubleSlash (getAssetPath defaultConfig ''model//truck.glb'')"
  by (simp add: getAssetPath_def defaultConfig_def startsWith_def)

section \<open>Decoder singleton: results\<close>

text \<open>
  Claim C6 (as amended). When no instance exists, \<open>getInstance\<close> called without a
  configuration throws a plain \<open>Error\<close> with the message
  \<open>LazyDecoderLoader: config required for first initialization\<close>, and leaves the
  runtime as it was: no instance is created, no promise is made and no bootstrap runs.
\<close>

theorem getInstance_without_config:
  "staticInstance rt = None \<Longrightarrow>
   getInstance None rt =
     (Inl (Error ''LazyDecoderLoader: config required for first initialization''), rt)"
  by (simp add: getInstance_def)

theorem getInstance_without_config_witness:
  "staticInstance freshRuntime = None \<and>
   getInstance None freshRuntime =
     (Inl (Error ''LazyDecoderLoader: config required for first initialization''),
      freshRuntime) \<and>
   bootstraps (env (snd (getInstance None freshRuntime))) = 0"
proof -
  have h: "staticInstance freshRuntime = None"
    by (simp add: freshRuntime_def)
  show ?thesis
    using h getInstance_without_config[OF h] by (simp add: freshRuntime_def)
qed

text \<open>Claim C6 as stated fails: the value thrown is not a \<open>ConfigurationError\<close>.\<close>

theorem getInstance_not_ConfigurationError_counterexample:
  "\<not> (case fst (getInstance None freshRuntime) of
         Inl e \<Rightarrow> isConfigurationError e
       | Inr _ \<Rightarrow> False)"
  by (simp add: getInstance_def freshRuntime_def)

section \<open>Retry: results\<close>








section \<open>Cache: results\<close>

text \<open>Unfolding the loaders on a concrete world.\<close>

lemmas world_eval = loadGLBWithPlaceholder_def createPlaceholderModel_def alloc_def sceneAdd_def sceneRemove_def
  disposeGroup_def loadAssetWithRetry_def loadFnOf_def retryLoop.simps loadGLB_def loadTexture_def clone_def request_def
  getAssetPath_def startsWith_def demoWorld_def onlineWorld_def defaultConfig_def showInt_def Let_def

lemma loadTexture_again:
  "loadTexture p w = (Inr t1, w1) \<Longrightarrow> loadTexture p w1 = (Inr t1, w1)"
  by (auto simp: loadTexture_def request_def alloc_def Let_def update_conv'
      split: option.splits sum.splits prod.splits)

lemma loadGLB_again:
  "loadGLB p w = (Inr m1, w1) \<Longrightarrow>
   \<exists>m2 w2. loadGLB p w1 = (Inr m2, w2) \<and> m2 \<noteq> m1 \<and> heap w2 m2 = heap w2 m1"
  by (auto simp: loadGLB_def request_def alloc_def clone_def Let_def update_conv'
      split: option.splits sum.splits prod.splits)

text \<open>
  Claim C2. On one loader, a successful \<open>loadTexture p\<close> followed by another
  \<open>loadTexture p\<close> resolves with the same texture instance (and leaves the world as it
  is); a successful \<open>loadGLB q\<close> followed by another \<open>loadGLB q\<close> resolves with a different
  object whose content equals that of the first.
\<close>

theorem cache_sequential_loads:
  "(loadTexture p w = (Inr t1, w1) \<longrightarrow> loadTexture p w1 = (Inr t1, w1)) \<and>
   (loadGLB q u = (Inr m1, u1) \<longrightarrow>
      (\<exists>m2 u2. loadGLB q u1 = (Inr m2, u2) \<and> m2 \<noteq> m1 \<and> heap u2 m2 = heap u2 m1))"
  using loadTexture_again loadGLB_again by blast

text \<open>A texture and a model loaded twice over the network that answers.\<close>

theorem cache_sequential_loads_witness:
  "fst (loadTexture ''optimized/logo.webp'' onlineWorld) = Inr 0 \<and>
   fst (loadTexture ''optimized/logo.webp'' (snd (loadTexture ''optimized/logo.webp'' onlineWorld)))
     = Inr 0 \<and>
   fst (loadGLB ''/model/truck.glb'' onlineWorld) = Inr 0 \<and>
   (\<exists>m2 u2. loadGLB ''/model/truck.glb'' (snd (loadGLB ''/model/truck.glb'' onlineWorld)) =
        (Inr m2, u2) \<and> m2 \<noteq> 0 \<and> heap u2 m2 = heap u2 0)"
proof -
  have t: "loadTexture ''optimized/logo.webp'' onlineWorld =
      (Inr 0, snd (loadTexture ''optimized/logo.webp'' onlineWorld))"
    by (simp add: prod_eq_iff world_eval)
  have g: "loadGLB ''/model/truck.glb'' onlineWorld =
      (Inr 0, snd (loadGLB ''/model/truck.glb'' onlineWorld))"
    by (simp add: prod_eq_iff world_eval)
  from cache_sequential_loads[of "''optimized/logo.webp''" onlineWorld 0
      "snd (loadTexture ''optimized/logo.webp'' onlineWorld)"
      "''/model/truck.glb''" onlineWorld 0 "snd (loadGLB ''/model/truck.glb'' onlineWorld)"] t g
  have "loadTexture ''optimized/logo.webp'' (snd (loadTexture ''optimized/logo.webp'' onlineWorld)) =
      (Inr 0, snd (loadTexture ''optimized/logo.webp'' onlineWorld))"
    and "\<exists>m2 u2. loadGLB ''/model/truck.glb'' (snd (loadGLB ''/model/truck.glb'' onlineWorld)) =
        (Inr m2, u2) \<and> m2 \<noteq> 0 \<and> heap u2 m2 = heap u2 0"
    by blast+
  then show ?thesis using t g by (metis fst_conv)
qed



section \<open>Placeholder swap: results\<close>

lemma loadGLB_frame:
  "sceneChildren (snd (loadGLB p w)) = sceneChildren w \<and>
   disposed (snd (loadGLB p w)) = disposed w"
  by (auto simp: loadGLB_def request_def alloc_def clone_def Let_def
      split: option.splits sum.splits prod.splits)

lemma loadFnOf_frame:
  assumes "\<And>s. f (snd (load s)) = f s"
  shows "f (snd (loadFnOf load s)) = f s"
  using assms[of s] by (cases "load s") (auto simp: loadFnOf_def split: sum.splits)

lemma loadFnOf_rejection:
  "fst (loadFnOf load s) = Inl v \<Longrightarrow> \<exists>e. v = ErrorObject e \<and> fst (load s) = Inl e"
  by (cases "load s") (auto simp: loadFnOf_def split: sum.splits)

lemma retryLoop_frame:
  assumes inv: "\<And>s. f (snd (loadFn s)) = f s"
  shows "d = nat (maxRetries - int a) \<Longrightarrow>
         f (fst (snd (retryLoop loadFn maxRetries a lastError s))) = f s"
proof (induction d arbitrary: a lastError s)
  case 0
  then have "\<not> int a < maxRetries" by linarith
  then show ?case by (simp add: retryLoop.simps[of loadFn maxRetries a])
next
  case (Suc d)
  then have lt: "int a < maxRetries" and d: "d = nat (maxRetries - int (Suc a))" by linarith+
  obtain r s1 where l: "loadFn s = (r, s1)" by (cases "loadFn s")
  have s1: "f s1 = f s" using inv[of s] l by simp
  show ?case
  proof (cases r)
    case (Inr v)
    then show ?thesis
      using lt l s1 by (simp add: retryLoop.simps[of loadFn maxRetries a])
  next
    case (Inl err)
    then show ?thesis
      using lt l s1 Suc.IH[OF d, of err s1]
      by (simp add: retryLoop.simps[of loadFn maxRetries a] Let_def case_prod_beta)
  qed
qed

text \<open>
  When the loop runs out, \<open>lastError\<close> is a value the load function rejected with, or,
  when no attempt was made, the value it started with.
\<close>

lemma retryLoop_lastError:
  "d = nat (maxRetries - int a) \<Longrightarrow>
   fst (retryLoop loadFn maxRetries a lastError s) = Inl v \<Longrightarrow>
   (v = lastError \<and> \<not> int a < maxRetries) \<or> (\<exists>s'. fst (loadFn s') = Inl v)"
proof (induction d arbitrary: a lastError s)
  case 0
  then have "\<not> int a < maxRetries" by linarith
  then show ?case using 0 by (simp add: retryLoop.simps[of loadFn maxRetries a])
next
  case (Suc d)
  then have lt: "int a < maxRetries" and d: "d = nat (maxRetries - int (Suc a))" by linarith+
  obtain r s1 where l: "loadFn s = (r, s1)" by (cases "loadFn s")
  show ?case
  proof (cases r)
    case (Inr x)
    then show ?thesis
      using lt l Suc.prems by (simp add: retryLoop.simps[of loadFn maxRetries a])
  next
    case (Inl err)
    have "fst (retryLoop loadFn maxRetries (Suc a) err s1) = Inl v"
      using lt l Inl Suc.prems(2)
      by (simp add: retryLoop.simps[of loadFn maxRetries a] Let_def case_prod_beta)
    from Suc.IH[OF d this] have "v = err \<or> (\<exists>s'. fst (loadFn s') = Inl v)" by blast
    moreover have "fst (loadFn s) = Inl err" using l Inl by simp
    ultimately show ?thesis by blast
  qed
qed

lemma loadAssetWithRetry_frame:
  assumes inv: "\<And>s. f (snd (loadFn s)) = f s"
  shows "f (fst (snd (loadAssetWithRetry loadFn nm maxRetries s))) = f s"
proof -
  obtain r s1 evs where l: "retryLoop loadFn maxRetries 0 Undefined s = (r, s1, evs)"
    by (cases "retryLoop loadFn maxRetries 0 Undefined s") auto
  have "f s1 = f s"
    using retryLoop_frame[of f loadFn _ maxRetries 0 Undefined s, OF inv refl] l by simp
  then show ?thesis
    using l by (simp add: loadAssetWithRetry_def split: sum.splits)
qed

lemma loadAssetWithRetry_error:
  assumes pos: "1 \<le> maxRetries"
    and rej: "fst (loadAssetWithRetry (loadFnOf load) nm maxRetries s) = Inl err"
  shows "\<exists>msg e. err = AssetLoadError msg nm maxRetries (ErrorObject e)"
proof -
  obtain r s1 evs where l: "retryLoop (loadFnOf load) maxRetries 0 Undefined s = (r, s1, evs)"
    by (cases "retryLoop (loadFnOf load) maxRetries 0 Undefined s") auto
  from rej l obtain v where r: "r = Inl v"
    by (cases r) (auto simp: loadAssetWithRetry_def)
  have "fst (retryLoop (loadFnOf load) maxRetries 0 Undefined s) = Inl v"
    using l r by simp
  from retryLoop_lastError[OF refl this] pos
  obtain s' where "fst (loadFnOf load s') = Inl v" by auto
  from loadFnOf_rejection[OF this] obtain e where v: "v = ErrorObject e" by auto
  show ?thesis
    using rej l r v by (auto simp: loadAssetWithRetry_def)
qed

text \<open>
  Claim C4. Let the children of the scene be objects that exist. \<open>loadGLBWithPlaceholder\<close>
  creates a new placeholder. When the load fails after its three attempts, the model
  promise rejects with the \<open>AssetLoadError\<close> of the retry wrapper, and the scene's children
  are the old ones followed by the placeholder, once: it is neither removed nor
  duplicated, and nothing was disposed. When the load succeeds, the promise resolves
  with the model the loader delivered, the scene's children are the old ones again and
  the placeholder is disposed.
\<close>

theorem loadGLBWithPlaceholder_swap:
  assumes fresh: "\<forall>a \<in> set (sceneChildren w). a < nextAddr w"
    and run: "loadGLBWithPlaceholder path w = (placeholder, result, w', evs)"
  shows "placeholder = nextAddr w \<and> placeholder \<notin> set (sceneChildren w) \<and>
    (case result of
       Inl err \<Rightarrow>
         sceneChildren w' = sceneChildren w @ [placeholder] \<and>
         disposed w' = disposed w \<and>
         (\<exists>msg orig. err = AssetLoadError msg path 3 (ErrorObject orig)) \<and>
         fst (loadAssetWithRetry (loadFnOf (loadGLB path)) path 3
               (sceneAdd placeholder (snd (createPlaceholderModel 1.5 7105644 w)))) = Inl err
     | Inr realModel \<Rightarrow>
         sceneChildren w' = sceneChildren w \<and>
         disposed w' = insert placeholder (disposed w) \<and>
         fst (loadAssetWithRetry (loadFnOf (loadGLB path)) path 3
               (sceneAdd placeholder (snd (createPlaceholderModel 1.5 7105644 w)))) = Inr realModel)"
proof -
  define w2 where "w2 = sceneAdd (nextAddr w) (snd (createPlaceholderModel 1.5 7105644 w))"
  have ph: "\<not> nextAddr w \<in> set (sceneChildren w)" using fresh by auto
  have c2: "sceneChildren w2 = sceneChildren w @ [nextAddr w]"
    using ph by (simp add: w2_def sceneAdd_def createPlaceholderModel_def alloc_def remove1_idem)
  have d2: "disposed w2 = disposed w"
    by (simp add: w2_def sceneAdd_def createPlaceholderModel_def alloc_def)
  obtain r w3 ev3 where L: "loadAssetWithRetry (loadFnOf (loadGLB path)) path 3 w2 = (r, w3, ev3)"
    by (cases "loadAssetWithRetry (loadFnOf (loadGLB path)) path 3 w2") auto
  have c3: "sceneChildren w3 = sceneChildren w @ [nextAddr w]"
    using loadAssetWithRetry_frame[of sceneChildren "loadFnOf (loadGLB path)" path 3 w2] L c2
    by (simp add: loadGLB_frame loadFnOf_frame)
  have d3: "disposed w3 = disposed w"
    using loadAssetWithRetry_frame[of disposed "loadFnOf (loadGLB path)" path 3 w2] L d2
    by (simp add: loadGLB_frame loadFnOf_frame)
  have unf: "loadGLBWithPlaceholder path w =
      (case r of
         Inr realModel \<Rightarrow> (nextAddr w, Inr realModel,
            disposeGroup (nextAddr w) (sceneRemove (nextAddr w) w3), ev3)
       | Inl err \<Rightarrow> (nextAddr w, Inl err, w3, ev3))"
    using L by (simp add: loadGLBWithPlaceholder_def w2_def createPlaceholderModel_def alloc_def
        Let_def split: sum.splits)
  show ?thesis
  proof (cases r)
    case (Inl err)
    have "\<exists>msg orig. err = AssetLoadError msg path 3 (ErrorObject orig)"
      using loadAssetWithRetry_error[of 3 "loadGLB path" path w2 err] L Inl by simp
    then show ?thesis
      using run unf Inl c3 d3 ph L by (auto simp: w2_def)
  next
    case (Inr m)
    then show ?thesis
      using run unf c3 d3 ph L
      by (auto simp: disposeGroup_def sceneRemove_def w2_def remove1_append)
  qed
qed

text \<open>
  A path that is not found keeps the placeholder; the truck model, found at the second
  attempt, replaces it.
\<close>

theorem loadGLBWithPlaceholder_swap_witness:
  "fst (snd (loadGLBWithPlaceholder ''/model/missing.glb'' demoWorld)) =
     Inl (AssetLoadError ''Failed to load /model/missing.glb after 3 attempts: Not Found''
            ''/model/missing.glb'' 3 (ErrorObject (Error ''Not Found''))) \<and>
   sceneChildren (fst (snd (snd (loadGLBWithPlaceholder ''/model/missing.glb'' demoWorld)))) = [0] \<and>
   disposed (fst (snd (snd (loadGLBWithPlaceholder ''/model/missing.glb'' demoWorld)))) = {} \<and>
   fst (snd (loadGLBWithPlaceholder ''/model/truck.glb'' demoWorld)) = Inr 1 \<and>
   sceneChildren (fst (snd (snd (loadGLBWithPlaceholder ''/model/truck.glb'' demoWorld)))) = [] \<and>
   disposed (fst (snd (snd (loadGLBWithPlaceholder ''/model/truck.glb'' demoWorld)))) = {0}"
proof -
  have fresh: "\<forall>a \<in> set (sceneChildren demoWorld). a < nextAddr demoWorld"
    by (simp add: demoWorld_def)
  have r1: "fst (snd (loadGLBWithPlaceholder ''/model/missing.glb'' demoWorld)) =
     Inl (AssetLoadError ''Failed to load /model/missing.glb after 3 attempts: Not Found''
            ''/model/missing.glb'' 3 (ErrorObject (Error ''Not Found'')))"
    by (simp add: world_eval)
  have r2: "fst (snd (loadGLBWithPlaceholder ''/model/truck.glb'' demoWorld)) = Inr 1"
    by (simp add: world_eval)
  have d: "sceneChildren demoWorld = [] \<and> disposed demoWorld = {} \<and> nextAddr demoWorld = 0"
    by (simp add: demoWorld_def)
  have c: "\<And>X :: addr \<times> (js_error + addr) \<times> string world \<times> retry_event list.
      X = (fst X, fst (snd X), fst (snd (snd X)), snd (snd (snd X)))"
    by simp
  from loadGLBWithPlaceholder_swap[OF fresh c, of "''/model/missing.glb''"]
  have a: "sceneChildren (fst (snd (snd (loadGLBWithPlaceholder ''/model/missing.glb'' demoWorld)))) = [0] \<and>
   disposed (fst (snd (snd (loadGLBWithPlaceholder ''/model/missing.glb'' demoWorld)))) = {}"
    unfolding r1 using d by simp
  from loadGLBWithPlaceholder_swap[OF fresh c, of "''/model/truck.glb''"]
  have b: "sceneChildren (fst (snd (snd (loadGLBWithPlaceholder ''/model/truck.glb'' demoWorld)))) = [] \<and>
   disposed (fst (snd (snd (loadGLBWithPlaceholder ''/model/truck.glb'' demoWorld)))) = {0}"
    unfolding r2 using d by simp
  show ?thesis using r1 r2 a b by simp
qed

section \<open>Decoder initialization: results\<close>

text \<open>
  The timer fulfils a pending promise and leaves a settled one alone; the call suspended
  at the \<open>await\<close> settles as the promise it awaits.
\<close>

lemma timerFires_settles:
  "p < length (promises e) \<Longrightarrow>
   promiseState (timerFires p e) p =
     (if promiseState e p = Pending then Fulfilled else promiseState e p)"
  by (simp add: timerFires_def promiseState_def)

lemma resumeAwait_settles_as_awaited:
  "fst (resumeAwait p this e) = promiseState e p"
  by (simp add: resumeAwait_def split: promise_state.splits)

lemma initializeDecodersAll_in_flight:
  "\<not> initialized this \<Longrightarrow> initPromise this = Some p \<Longrightarrow>
   initializeDecodersAll boots this e = (replicate (length boots) (Adopts p), this, e)"
  by (induction boots) (simp_all add: initializeDecoders_def)

lemma performInitialization_effect:
  "performInitialization boot this e = (p, this1, e1) \<Longrightarrow>
   p = length (promises e) \<and> bootstraps e1 = Suc (bootstraps e) \<and>
   initialized this1 = initialized this \<and> initPromise this1 = initPromise this \<and>
   length (promises e1) = Suc (length (promises e))"
  by (auto simp: performInitialization_def newPromise_def Let_def split: boot_env.splits)

text \<open>
  Claim C3. On a loader that is neither initialized nor initializing, \<open>N \<ge> 1\<close> calls of
  \<open>initializeDecoders\<close> issued before any continuation runs start
  \<open>performInitialization\<close> exactly once. The first caller awaits the promise \<open>p\<close> it
  created and every other caller adopts the same \<open>p\<close>. Whenever \<open>p\<close> settles, the promise
  of each of the \<open>N\<close> callers settles as \<open>p\<close> does, the first caller's through the
  continuation of its \<open>await\<close>: fulfilled together or rejected together with the same
  value. Once \<open>p\<close> is fulfilled that continuation marks the loader initialized and a
  later call resolves at once without another bootstrap; once \<open>p\<close> is rejected it clears
  \<open>initPromise\<close>, and the next call starts a new initialization with a new promise.
\<close>

theorem initializeDecoders_single_flight:
  assumes fresh: "\<not> initialized this \<and> initPromise this = None"
    and calls: "boots \<noteq> []"
    and run: "initializeDecodersAll boots this e = (hs, this', e')"
  shows "bootstraps e' = Suc (bootstraps e) \<and>
    length hs = length boots \<and>
    hs = Awaits (length (promises e)) #
           replicate (length boots - 1) (Adopts (length (promises e))) \<and>
    initPromise this' = Some (length (promises e)) \<and>
    (\<forall>h \<in> set hs. \<forall>e''. outcome this' e'' h = promiseState e'' (length (promises e))) \<and>
    (\<forall>e''. promiseState e'' (length (promises e)) = Fulfilled \<longrightarrow>
       fst (resumeAwait (length (promises e)) this' e'') = Fulfilled \<and>
       initialized (snd (resumeAwait (length (promises e)) this' e'')) \<and>
       (\<forall>boot. initializeDecoders boot
                  (snd (resumeAwait (length (promises e)) this' e'')) e''
                = (Immediate, snd (resumeAwait (length (promises e)) this' e''), e''))) \<and>
    (\<forall>e'' err. promiseState e'' (length (promises e)) = Rejected err \<longrightarrow>
       fst (resumeAwait (length (promises e)) this' e'') = Rejected err \<and>
       initPromise (snd (resumeAwait (length (promises e)) this' e'')) = None \<and>
       (\<forall>boot. fst (initializeDecoders boot
                       (snd (resumeAwait (length (promises e)) this' e'')) e'')
                  = Awaits (length (promises e'')) \<and>
               bootstraps (snd (snd (initializeDecoders boot
                       (snd (resumeAwait (length (promises e)) this' e'')) e'')))
                  = Suc (bootstraps e'')))"
proof -
  obtain boot rest where boots: "boots = boot # rest"
    using calls by (cases boots) auto
  obtain p this1 e1 where P: "performInitialization boot this e = (p, this1, e1)"
    by (cases "performInitialization boot this e") auto
  note eff = performInitialization_effect[OF P]
  have first: "initializeDecoders boot this e = (Awaits p, this1\<lparr>initPromise := Some p\<rparr>, e1)"
    using fresh P by (simp add: initializeDecoders_def)
  have rest: "initializeDecodersAll rest (this1\<lparr>initPromise := Some p\<rparr>) e1 =
      (replicate (length rest) (Adopts p), this1\<lparr>initPromise := Some p\<rparr>, e1)"
    using initializeDecodersAll_in_flight[of "this1\<lparr>initPromise := Some p\<rparr>" p rest e1] eff fresh
    by simp
  have res: "hs = Awaits p # replicate (length rest) (Adopts p) \<and>
      this' = this1\<lparr>initPromise := Some p\<rparr> \<and> e' = e1"
    using run boots first rest by simp
  have p: "p = length (promises e)" using eff by simp
  have ni: "\<not> initialized this'" using res eff fresh by simp
  have together: "\<forall>h \<in> set hs. \<forall>e''. outcome this' e'' h = promiseState e'' p"
    using res by (auto simp: resumeAwait_settles_as_awaited)
  have fulf: "\<And>e'' boot. promiseState e'' p = Fulfilled \<Longrightarrow>
       fst (resumeAwait p this' e'') = Fulfilled \<and>
       initialized (snd (resumeAwait p this' e'')) \<and>
       initializeDecoders boot (snd (resumeAwait p this' e'')) e''
         = (Immediate, snd (resumeAwait p this' e''), e'')"
    by (simp add: resumeAwait_def initializeDecoders_def)
  have later: "\<And>e'' err boot. promiseState e'' p = Rejected err \<Longrightarrow>
       fst (resumeAwait p this' e'') = Rejected err \<and>
       initPromise (snd (resumeAwait p this' e'')) = None \<and>
       fst (initializeDecoders boot (snd (resumeAwait p this' e'')) e'') = Awaits (length (promises e'')) \<and>
       bootstraps (snd (snd (initializeDecoders boot (snd (resumeAwait p this' e'')) e''))) = Suc (bootstraps e'')"
  proof -
    fix e'' err boot
    assume rej: "promiseState e'' p = Rejected err"
    obtain q this2 e2 where Q:
      "performInitialization boot (this'\<lparr>initPromise := None\<rparr>) e'' = (q, this2, e2)"
      by (cases "performInitialization boot (this'\<lparr>initPromise := None\<rparr>) e''") auto
    note eff2 = performInitialization_effect[OF Q]
    show "fst (resumeAwait p this' e'') = Rejected err \<and>
       initPromise (snd (resumeAwait p this' e'')) = None \<and>
       fst (initializeDecoders boot (snd (resumeAwait p this' e'')) e'') = Awaits (length (promises e'')) \<and>
       bootstraps (snd (snd (initializeDecoders boot (snd (resumeAwait p this' e'')) e''))) = Suc (bootstraps e'')"
      using rej ni Q eff2 by (simp add: resumeAwait_def initializeDecoders_def)
  qed
  have shape: "bootstraps e' = Suc (bootstraps e) \<and> length hs = length boots \<and>
      hs = Awaits p # replicate (length boots - 1) (Adopts p) \<and> initPromise this' = Some p"
    using res eff boots by simp
  show ?thesis
    unfolding p[symmetric] using shape together fulf later by blast
qed

text \<open>
  Three calls with the bootstrap failing in the constructor, and a fourth call
  afterwards; three calls with the bootstrap succeeding, the timer firing, and a fourth
  call afterwards.
\<close>

theorem initializeDecoders_single_flight_witness:
  "initializeDecodersAll
      [ConstructorThrows (ErrorObject (TypeError ''DRACOLoader is not a constructor'')), BootOk, BootOk]
      (newLazyDecoderLoader demoDecoderConfig) emptyEnv =
     ([Awaits 0, Adopts 0, Adopts 0], rejectedLoader, rejectedEnv) \<and>
   bootstraps rejectedEnv = 1 \<and>
   map (outcome rejectedLoader rejectedEnv) [Awaits 0, Adopts 0, Adopts 0] =
     replicate 3 (Rejected (ErrorObject (TypeError ''DRACOLoader is not a constructor''))) \<and>
   initPromise (snd (resumeAwait 0 rejectedLoader rejectedEnv)) = None \<and>
   bootstraps (snd (snd (initializeDecoders BootOk
       (snd (resumeAwait 0 rejectedLoader rejectedEnv)) rejectedEnv))) = 2 \<and>
   initializeDecodersAll [BootOk, BootOk, BootOk]
      (newLazyDecoderLoader demoDecoderConfig) emptyEnv =
     ([Awaits 0, Adopts 0, Adopts 0], pendingLoader, pendingEnv) \<and>
   map (outcome pendingLoader (timerFires 0 pendingEnv)) [Awaits 0, Adopts 0, Adopts 0] =
     replicate 3 Fulfilled \<and>
   initialized (snd (resumeAwait 0 pendingLoader (timerFires 0 pendingEnv))) \<and>
   fst (initializeDecoders BootOk
          (snd (resumeAwait 0 pendingLoader (timerFires 0 pendingEnv)))
          (timerFires 0 pendingEnv)) = Immediate"
proof -
  have fresh: "\<not> initialized (newLazyDecoderLoader demoDecoderConfig) \<and>
      initPromise (newLazyDecoderLoader demoDecoderConfig) = None"
    by (simp add: newLazyDecoderLoader_def)
  have calls: "[ConstructorThrows (ErrorObject (TypeError ''DRACOLoader is not a constructor'')),
      BootOk, BootOk] \<noteq> []" "[BootOk, BootOk, BootOk] \<noteq> []"
    by simp_all
  have run: "initializeDecodersAll
      [ConstructorThrows (ErrorObject (TypeError ''DRACOLoader is not a constructor'')), BootOk, BootOk]
      (newLazyDecoderLoader demoDecoderConfig) emptyEnv =
     ([Awaits 0, Adopts 0, Adopts 0], rejectedLoader, rejectedEnv)"
    by (simp add: initializeDecoders_def performInitialization_def newPromise_def
        newLazyDecoderLoader_def emptyEnv_def rejectedLoader_def rejectedEnv_def)
  have run2: "initializeDecodersAll [BootOk, BootOk, BootOk]
      (newLazyDecoderLoader demoDecoderConfig) emptyEnv =
     ([Awaits 0, Adopts 0, Adopts 0], pendingLoader, pendingEnv)"
    by (simp add: initializeDecoders_def performInitialization_def newPromise_def
        newLazyDecoderLoader_def emptyEnv_def pendingLoader_def pendingEnv_def)
  have rej: "promiseState rejectedEnv 0 =
      Rejected (ErrorObject (TypeError ''DRACOLoader is not a constructor''))"
    by (simp add: promiseState_def rejectedEnv_def)
  have ful: "promiseState (timerFires 0 pendingEnv) 0 = Fulfilled"
    by (simp add: promiseState_def timerFires_def pendingEnv_def)
  have len: "length (promises emptyEnv) = 0" "bootstraps emptyEnv = 0" "bootstraps rejectedEnv = 1"
    by (simp_all add: emptyEnv_def rejectedEnv_def)
  note r = initializeDecoders_single_flight[OF fresh calls(1) run, unfolded len]
  note f = initializeDecoders_single_flight[OF fresh calls(2) run2, unfolded len]
  from r have r1: "\<forall>h \<in> set [Awaits 0, Adopts 0, Adopts 0].
      \<forall>e''. outcome rejectedLoader e'' h = promiseState e'' 0"
    by blast
  from r have r2: "\<forall>e'' err. promiseState e'' 0 = Rejected err \<longrightarrow>
       initPromise (snd (resumeAwait 0 rejectedLoader e'')) = None \<and>
       (\<forall>boot. bootstraps (snd (snd (initializeDecoders boot
                       (snd (resumeAwait 0 rejectedLoader e'')) e'')))
                  = Suc (bootstraps e''))"
    by blast
  from f have f1: "\<forall>h \<in> set [Awaits 0, Adopts 0, Adopts 0].
      \<forall>e''. outcome pendingLoader e'' h = promiseState e'' 0"
    by blast
  from f have f2: "\<forall>e''. promiseState e'' 0 = Fulfilled \<longrightarrow>
       initialized (snd (resumeAwait 0 pendingLoader e'')) \<and>
       (\<forall>boot. initializeDecoders boot (snd (resumeAwait 0 pendingLoader e'')) e''
                = (Immediate, snd (resumeAwait 0 pendingLoader e''), e''))"
    by blast
  have a: "map (outcome rejectedLoader rejectedEnv) [Awaits 0, Adopts 0, Adopts 0] =
     replicate 3 (Rejected (ErrorObject (TypeError ''DRACOLoader is not a constructor'')))"
    using r1 rej by (simp add: numeral_3_eq_3)
  have b: "initPromise (snd (resumeAwait 0 rejectedLoader rejectedEnv)) = None \<and>
    bootstraps (snd (snd (initializeDecoders BootOk
       (snd (resumeAwait 0 rejectedLoader rejectedEnv)) rejectedEnv))) = 2"
    using r2[rule_format, OF rej] len by simp
  have c: "map (outcome pendingLoader (timerFires 0 pendingEnv)) [Awaits 0, Adopts 0, Adopts 0] =
     replicate 3 Fulfilled"
    using f1 ful by (simp add: numeral_3_eq_3)
  have d: "initialized (snd (resumeAwait 0 pendingLoader (timerFires 0 pendingEnv))) \<and>
     fst (initializeDecoders BootOk
          (snd (resumeAwait 0 pendingLoader (timerFires 0 pendingEnv)))
          (timerFires 0 pendingEnv)) = Immediate"
    using f2[rule_format, OF ful] by simp
  show ?thesis
    using run run2 len a b c d by simp
qed

section \<open>Transform validation: results\<close>











section \<open>Snapshots: results\<close>

lemma updateMatrixWorld_frame:
  "withoutMatrices (updateMatrixWorld eng force parentWorld obj) = withoutMatrices obj"
proof (induction obj arbitrary: force parentWorld)
  case (Object3D this cs)
  have kids: "\<And>f pw. map (withoutMatrices \<circ> updateMatrixWorld eng f pw) cs = map withoutMatrices cs"
    using Object3D.IH by (intro map_cong) simp_all
  show ?case
    by (simp add: Let_def updateMatrix_def kids)
qed

lemma updateMatrixWorld_node:
  "node (updateMatrixWorld eng True parentWorld obj) =
     (node obj)
       \<lparr>matrix := (if matrixAutoUpdate (node obj)
                    then compose eng (position (node obj)) (rotation (node obj)) (scale (node obj))
                    else matrix (node obj)),
        matrixWorld :=
          (if matrixWorldAutoUpdate (node obj)
           then (case parentWorld of
                   None \<Rightarrow>
                     (if matrixAutoUpdate (node obj)
                      then compose eng (position (node obj)) (rotation (node obj)) (scale (node obj))
                      else matrix (node obj))
                 | Some pm \<Rightarrow>
                     multiplyMatrices eng pm
                       (if matrixAutoUpdate (node obj)
                        then compose eng (position (node obj)) (rotation (node obj))
                               (scale (node obj))
                        else matrix (node obj)))
           else matrixWorld (node obj)),
        matrixWorldNeedsUpdate := False\<rparr>"
  by (cases obj) (simp add: Let_def updateMatrix_def split: option.splits)

lemma updateMatrixWorld_children:
  "children (updateMatrixWorld eng True parentWorld obj) =
     map (updateMatrixWorld eng True
            (Some (matrixWorld (node (updateMatrixWorld eng True parentWorld obj)))))
       (children obj)"
  by (cases obj) (simp add: Let_def)

text \<open>
  Claim C8 (as amended). \<open>captureSnapshot\<close> leaves the object and every one of its
  descendants as they were in every field but the cached matrices and their flag
  (\<open>matrix\<close>, \<open>matrixWorld\<close>, \<open>matrixWorldNeedsUpdate\<close>), and the tree of children keeps its
  shape: in particular the name, position, rotation and scale of the object are
  unchanged, and the snapshot records them. What the forced update writes are those
  caches: the local matrix is recomposed from position, rotation and scale (when
  \<open>matrixAutoUpdate\<close> is on), the world matrix is recomputed from it and the parent's world
  matrix, \<open>matrixWorldNeedsUpdate\<close> is cleared, and every child is updated the same way
  under the new world matrix.
\<close>

theorem captureSnapshot_frame:
  "withoutMatrices (snd (captureSnapshot eng parentWorld obj lbl now)) = withoutMatrices obj \<and>
   name (node (snd (captureSnapshot eng parentWorld obj lbl now))) = name (node obj) \<and>
   position (node (snd (captureSnapshot eng parentWorld obj lbl now))) = position (node obj) \<and>
   rotation (node (snd (captureSnapshot eng parentWorld obj lbl now))) = rotation (node obj) \<and>
   scale (node (snd (captureSnapshot eng parentWorld obj lbl now))) = scale (node obj) \<and>
   length (children (snd (captureSnapshot eng parentWorld obj lbl now))) = length (children obj) \<and>
   snapName (fst (captureSnapshot eng parentWorld obj lbl now)) =
     (if name (node obj) = [] then ''unnamed'' else name (node obj)) \<and>
   snapPosition (fst (captureSnapshot eng parentWorld obj lbl now)) = position (node obj) \<and>
   snapRotation (fst (captureSnapshot eng parentWorld obj lbl now)) = rotation (node obj) \<and>
   snapScale (fst (captureSnapshot eng parentWorld obj lbl now)) = scale (node obj) \<and>
   worldMatrix (fst (captureSnapshot eng parentWorld obj lbl now)) =
     matrixWorld (node (snd (captureSnapshot eng parentWorld obj lbl now))) \<and>
   matrix (node (snd (captureSnapshot eng parentWorld obj lbl now))) =
     (if matrixAutoUpdate (node obj)
      then compose eng (position (node obj)) (rotation (node obj)) (scale (node obj))
      else matrix (node obj)) \<and>
   matrixWorld (node (snd (captureSnapshot eng parentWorld obj lbl now))) =
     (if matrixWorldAutoUpdate (node obj)
      then (case parentWorld of
              None \<Rightarrow> matrix (node (snd (captureSnapshot eng parentWorld obj lbl now)))
            | Some pm \<Rightarrow>
                multiplyMatrices eng pm
                  (matrix (node (snd (captureSnapshot eng parentWorld obj lbl now)))))
      else matrixWorld (node obj)) \<and>
   \<not> matrixWorldNeedsUpdate (node (snd (captureSnapshot eng parentWorld obj lbl now))) \<and>
   children (snd (captureSnapshot eng parentWorld obj lbl now)) =
     map (updateMatrixWorld eng True
            (Some (matrixWorld (node (snd (captureSnapshot eng parentWorld obj lbl now))))))
       (children obj)"
proof -
  have s: "snd (captureSnapshot eng parentWorld obj lbl now) =
      updateMatrixWorld eng True parentWorld obj"
    by (simp add: captureSnapshot_def Let_def)
  have f: "fst (captureSnapshot eng parentWorld obj lbl now) =
      \<lparr>snapName = (if name (node (updateMatrixWorld eng True parentWorld obj)) = []
                   then ''unnamed'' else name (node (updateMatrixWorld eng True parentWorld obj))),
       snapPosition = position (node (updateMatrixWorld eng True parentWorld obj)),
       snapRotation = rotation (node (updateMatrixWorld eng True parentWorld obj)),
       snapScale = scale (node (updateMatrixWorld eng True parentWorld obj)),
       worldMatrix = matrixWorld (node (updateMatrixWorld eng True parentWorld obj)),
       timestamp = now, environment = lbl\<rparr>"
    by (simp add: captureSnapshot_def Let_def)
  have len: "length (children (updateMatrixWorld eng True parentWorld obj)) = length (children obj)"
    by (cases obj) (simp add: Let_def)
  show ?thesis
    unfolding s f
    using updateMatrixWorld_children[of eng parentWorld obj] len
    by (simp add: updateMatrixWorld_frame updateMatrixWorld_node split: option.splits)
qed

text \<open>
  Claim C8 as stated fails: a sensor moved since its matrices were computed leaves the
  call with another local and world matrix, and so does its child, which was not moved.
\<close>

theorem captureSnapshot_mutates_counterexample:
  "snd (captureSnapshot exactEngine None movedObject None 0) \<noteq> movedObject \<and>
   matrixWorld (node movedObject) =
     [Num 1, Num 0, Num 0, Num 0, Num 0, Num 1, Num 0, Num 0,
      Num 0, Num 0, Num 1, Num 0, Num 0, Num 0, Num 0, Num 1] \<and>
   matrixWorld (node (snd (captureSnapshot exactEngine None movedObject None 0))) =
     [Num 1, Num 0, Num 0, Num 0, Num 0, Num 1, Num 0, Num 0,
      Num 0, Num 0, Num 1, Num 0, Num 1, Num 2, Num 3, Num 1] \<and>
   map (matrixWorld \<circ> node) (children movedObject) =
     [[Num 1, Num 0, Num 0, Num 0, Num 0, Num 1, Num 0, Num 0,
       Num 0, Num 0, Num 1, Num 0, Num 0, Num 0, Num 0, Num 1]] \<and>
   map (matrixWorld \<circ> node) (children (snd (captureSnapshot exactEngine None movedObject None 0))) =
     [[Num 1, Num 0, Num 0, Num 0, Num 0, Num 1, Num 0, Num 0,
       Num 0, Num 0, Num 1, Num 0, Num 1, Num 2, Num 3, Num 1]]"
proof -
  have half: "jsHalf exactEngine (Num 0) = Num 0"
    by (simp add: exactEngine_def)
  have c0: "compose exactEngine (Vec3 (Num 1) (Num 2) (Num 3)) (Vec3 (Num 0) (Num 0) (Num 0))
        (Vec3 (Num 1) (Num 1) (Num 1)) =
     [Num 1, Num 0, Num 0, Num 0, Num 0, Num 1, Num 0, Num 0,
      Num 0, Num 0, Num 1, Num 0, Num 1, Num 2, Num 3, Num 1]"
    unfolding compose_def half by (simp add: exactEngine_def jsSub_def Let_def)
  have c1: "compose exactEngine (Vec3 (Num 0) (Num 0) (Num 0)) (Vec3 (Num 0) (Num 0) (Num 0))
        (Vec3 (Num 1) (Num 1) (Num 1)) =
     [Num 1, Num 0, Num 0, Num 0, Num 0, Num 1, Num 0, Num 0,
      Num 0, Num 0, Num 1, Num 0, Num 0, Num 0, Num 0, Num 1]"
    unfolding compose_def half by (simp add: exactEngine_def jsSub_def Let_def)
  have up: "[0..<16] = [0, 1, 2, 3, 4, 5, 6, 7, 8, 9, 10, 11, 12, 13, 14, 15]"
    by (simp add: upt_rec)
  have mm: "multiplyMatrices exactEngine
       [Num 1, Num 0, Num 0, Num 0, Num 0, Num 1, Num 0, Num 0,
        Num 0, Num 0, Num 1, Num 0, Num 1, Num 2, Num 3, Num 1]
       [Num 1, Num 0, Num 0, Num 0, Num 0, Num 1, Num 0, Num 0,
        Num 0, Num 0, Num 1, Num 0, Num 0, Num 0, Num 0, Num 1] =
     [Num 1, Num 0, Num 0, Num 0, Num 0, Num 1, Num 0, Num 0,
      Num 0, Num 0, Num 1, Num 0, Num 1, Num 2, Num 3, Num 1]"
    unfolding multiplyMatrices_def up by (simp add: elementAt_def exactEngine_def)
  have m: "matrixWorld (node (snd (captureSnapshot exactEngine None movedObject None 0))) =
     [Num 1, Num 0, Num 0, Num 0, Num 0, Num 1, Num 0, Num 0,
      Num 0, Num 0, Num 1, Num 0, Num 1, Num 2, Num 3, Num 1]"
    by (simp add: captureSnapshot_def updateMatrix_def Let_def movedObject_def movedSensor_def c0)
  have k: "map (matrixWorld \<circ> node)
        (children (snd (captureSnapshot exactEngine None movedObject None 0))) =
     [[Num 1, Num 0, Num 0, Num 0, Num 0, Num 1, Num 0, Num 0,
       Num 0, Num 0, Num 1, Num 0, Num 1, Num 2, Num 3, Num 1]]"
    by (simp add: captureSnapshot_def updateMatrix_def Let_def movedObject_def movedSensor_def
        sensorProbe_def c0 c1 mm)
  have o: "matrixWorld (node movedObject) =
     [Num 1, Num 0, Num 0, Num 0, Num 0, Num 1, Num 0, Num 0,
      Num 0, Num 0, Num 1, Num 0, Num 0, Num 0, Num 0, Num 1]"
    "map (matrixWorld \<circ> node) (children movedObject) =
     [[Num 1, Num 0, Num 0, Num 0, Num 0, Num 1, Num 0, Num 0,
       Num 0, Num 0, Num 1, Num 0, Num 0, Num 0, Num 0, Num 1]]"
    by (simp_all add: movedObject_def movedSensor_def sensorProbe_def identity4_def)
  have "matrixWorld (node (snd (captureSnapshot exactEngine None movedObject None 0))) \<noteq>
      matrixWorld (node movedObject)"
    unfolding m o by simp
  then have "snd (captureSnapshot exactEngine None movedObject None 0) \<noteq> movedObject"
    by auto
  then show ?thesis using m k o by simp
qed

lemma absDiff3_self:
  "rnd eng 0 = Num 0 \<Longrightarrow> finite3 v \<Longrightarrow> absDiff3 eng v v = Vec3 (Num 0) (Num 0) (Num 0)"
  by (cases v; cases "vx v"; cases "vy v"; cases "vz v")
    (simp_all add: absDiff3_def jsSub_def finite3_def)

lemma max3_zero: "max3 (Vec3 (Num 0) (Num 0) (Num 0)) = Num 0"
  by (simp add: max3_def mathMax_def mathMax2_def)

lemma zero_within: "lessEq (Num 0) tolerance \<Longrightarrow> \<not> greater (Num 0) tolerance"
  by (cases tolerance) simp_all

text \<open>
  Claim C9 (as amended). For a snapshot whose position, rotation and scale components
  are all finite numbers and a validator whose tolerance is not below zero (on an
  engine whose subtraction of a number from itself gives zero), comparing the snapshot
  with itself gives zero differences on every axis, zero maxima,
  \<open>withinTolerance = true\<close> and no issue. Two consecutive calls of \<open>validateTransforms\<close> for
  the same name, object and tolerance give the same result, provided the configuration
  resource answers the second call as it answered the first if the first call left the
  configuration unloaded.
\<close>

theorem compareSnapshots_self_and_validate_twice:
  "(rnd eng 0 = Num 0 \<and> finite3 (snapPosition s) \<and> finite3 (snapRotation s) \<and>
    finite3 (snapScale s) \<and> lessEq (Num 0) tolerance \<longrightarrow>
      compareSnapshots eng tolerance s s =
        \<lparr>objectName = snapName s,
         positionDiff = Vec3 (Num 0) (Num 0) (Num 0),
         rotationDiff = Vec3 (Num 0) (Num 0) (Num 0),
         scaleDiff = Vec3 (Num 0) (Num 0) (Num 0),
         maxPositionDiff = Num 0, maxRotationDiff = Num 0, maxScaleDiff = Num 0,
         withinTolerance = True, issues = []\<rparr>) \<and>
   ((transforms (snd (validateTransforms eng fetched nm obj tol si)) = None \<longrightarrow> fetched2 = fetched) \<longrightarrow>
      fst (validateTransforms eng fetched2 nm obj tol
             (snd (validateTransforms eng fetched nm obj tol si))) =
      fst (validateTransforms eng fetched nm obj tol si))"
proof (intro conjI impI)
  assume a: "rnd eng 0 = Num 0 \<and> finite3 (snapPosition s) \<and> finite3 (snapRotation s) \<and>
    finite3 (snapScale s) \<and> lessEq (Num 0) tolerance"
  then show "compareSnapshots eng tolerance s s =
        \<lparr>objectName = snapName s,
         positionDiff = Vec3 (Num 0) (Num 0) (Num 0),
         rotationDiff = Vec3 (Num 0) (Num 0) (Num 0),
         scaleDiff = Vec3 (Num 0) (Num 0) (Num 0),
         maxPositionDiff = Num 0, maxRotationDiff = Num 0, maxScaleDiff = Num 0,
         withinTolerance = True, issues = []\<rparr>"
    by (simp add: compareSnapshots_def absDiff3_self max3_zero zero_within Let_def)
next
  assume same: "transforms (snd (validateTransforms eng fetched nm obj tol si)) = None \<longrightarrow>
      fetched2 = fetched"
  show "fst (validateTransforms eng fetched2 nm obj tol
             (snd (validateTransforms eng fetched nm obj tol si))) =
      fst (validateTransforms eng fetched nm obj tol si)"
  proof (cases "enableValidation (sceneConfig si)")
    case False
    then show ?thesis by (simp add: validateTransforms_def)
  next
    case True
    show ?thesis
    proof (cases "transforms si")
      case (Some ts)
      then show ?thesis using True by (simp add: validateTransforms_def)
    next
      case None
      show ?thesis
      proof (cases fetched)
        case (ResponseJson ts)
        then show ?thesis
          using True None by (simp add: validateTransforms_def loadTransforms_def)
      next
        case (FetchRejects err)
        then have "transforms (snd (validateTransforms eng fetched nm obj tol si)) = None"
          using True None by (simp add: validateTransforms_def loadTransforms_def)
        with same have "fetched2 = fetched" by simp
        then show ?thesis
          using True None FetchRejects by (simp add: validateTransforms_def loadTransforms_def)
      next
        case (ResponseNotOk st)
        then have "transforms (snd (validateTransforms eng fetched nm obj tol si)) = None"
          using True None by (simp add: validateTransforms_def loadTransforms_def)
        with same have "fetched2 = fetched" by simp
        then show ?thesis
          using True None ResponseNotOk by (simp add: validateTransforms_def loadTransforms_def)
      next
        case (JsonRejects err)
        then have "transforms (snd (validateTransforms eng fetched nm obj tol si)) = None"
          using True None by (simp add: validateTransforms_def loadTransforms_def)
        with same have "fetched2 = fetched" by simp
        then show ?thesis
          using True None JsonRejects by (simp add: validateTransforms_def loadTransforms_def)
      next
        case ResponseJsonNull
        then have "transforms (snd (validateTransforms eng fetched nm obj tol si)) = None"
          using True None by (simp add: validateTransforms_def loadTransforms_def)
        with same have "fetched2 = fetched" by simp
        then show ?thesis
          using True None ResponseJsonNull by (simp add: validateTransforms_def loadTransforms_def)
      qed
    qed
  qed
qed

text \<open>
  The snapshot of the placed truck against itself, and the shifted truck validated twice:
  the second call uses the configuration the first one loaded, whatever the network does.
\<close>

theorem compareSnapshots_self_and_validate_twice_witness:
  "compareSnapshots exactEngine (Num 0.001) truckSnapshot truckSnapshot =
        \<lparr>objectName = ''truck'',
         positionDiff = Vec3 (Num 0) (Num 0) (Num 0),
         rotationDiff = Vec3 (Num 0) (Num 0) (Num 0),
         scaleDiff = Vec3 (Num 0) (Num 0) (Num 0),
         maxPositionDiff = Num 0, maxRotationDiff = Num 0, maxScaleDiff = Num 0,
         withinTolerance = True, issues = []\<rparr> \<and>
   fst (validateTransforms exactEngine (ResponseNotOk ''Service Unavailable'') ''truck'' shiftedTruck
          (Num 0.001)
          (snd (validateTransforms exactEngine (ResponseJson demoTransforms) ''truck'' shiftedTruck
                  (Num 0.001) demoInitializer))) =
   fst (validateTransforms exactEngine (ResponseJson demoTransforms) ''truck'' shiftedTruck
          (Num 0.001) demoInitializer)"
proof -
  have pre: "rnd exactEngine 0 = Num 0 \<and> finite3 (snapPosition truckSnapshot) \<and>
      finite3 (snapRotation truckSnapshot) \<and> finite3 (snapScale truckSnapshot) \<and>
      lessEq (Num 0) (Num 0.001)"
    by (simp add: exactEngine_def truckSnapshot_def captureSnapshot_def updateMatrix_def
        placedTruck_def finite3_def Let_def)
  have nm: "snapName truckSnapshot = ''truck''"
    by (simp add: truckSnapshot_def captureSnapshot_def updateMatrix_def placedTruck_def Let_def)
  have loaded: "transforms (snd (validateTransforms exactEngine (ResponseJson demoTransforms)
        ''truck'' shiftedTruck (Num 0.001) demoInitializer)) = None \<longrightarrow>
      ResponseNotOk ''Service Unavailable'' = ResponseJson demoTransforms"
    by (simp add: validateTransforms_def loadTransforms_def demoInitializer_def)
  from compareSnapshots_self_and_validate_twice[of exactEngine truckSnapshot "Num 0.001"
      "ResponseJson demoTransforms" "''truck''" shiftedTruck "Num 0.001" demoInitializer
      "ResponseNotOk ''Service Unavailable''"] pre loaded
  show ?thesis unfolding nm by blast
qed

text \<open>
  Claim C9 as stated fails: the snapshot of an object whose position is \<open>NaN\<close> on the x
  axis, compared with itself at the default tolerance, has a position difference that
  is \<open>NaN\<close>, not zero, and is not within tolerance, with no issue reported.
\<close>

theorem compareSnapshots_NaN_counterexample:
  "snapPosition lostSnapshot = Vec3 NaN (Num (- 1.5)) (Num (- 5.5)) \<and>
   positionDiff (compareSnapshots exactEngine (Num 0.001) lostSnapshot lostSnapshot) =
     Vec3 NaN (Num 0) (Num 0) \<and>
   maxPositionDiff (compareSnapshots exactEngine (Num 0.001) lostSnapshot lostSnapshot) = NaN \<and>
   \<not> withinTolerance (compareSnapshots exactEngine (Num 0.001) lostSnapshot lostSnapshot) \<and>
   issues (compareSnapshots exactEngine (Num 0.001) lostSnapshot lostSnapshot) = []"
proof -
  have p: "snapPosition lostSnapshot = Vec3 NaN (Num (- 1.5)) (Num (- 5.5))"
    and r: "snapRotation lostSnapshot = Vec3 (Num 0) (Num 0.5) (Num 0)"
    and s: "snapScale lostSnapshot = Vec3 (Num 1.5) (Num 1.5) (Num 1.5)"
    by (simp_all add: lostSnapshot_def captureSnapshot_def updateMatrix_def lostTruck_def
        placedTruck_def Let_def)
  have d: "absDiff3 exactEngine (Vec3 NaN (Num (- 1.5)) (Num (- 5.5)))
        (Vec3 NaN (Num (- 1.5)) (Num (- 5.5))) = Vec3 NaN (Num 0) (Num 0)"
    "absDiff3 exactEngine (Vec3 (Num 0) (Num 0.5) (Num 0)) (Vec3 (Num 0) (Num 0.5) (Num 0)) =
       Vec3 (Num 0) (Num 0) (Num 0)"
    "absDiff3 exactEngine (Vec3 (Num 1.5) (Num 1.5) (Num 1.5)) (Vec3 (Num 1.5) (Num 1.5) (Num 1.5)) =
       Vec3 (Num 0) (Num 0) (Num 0)"
    by (simp_all add: absDiff3_def jsSub_def exactEngine_def)
  have m: "max3 (Vec3 NaN (Num 0) (Num 0)) = NaN"
    by (simp add: max3_def mathMax_def mathMax2_def)
  show ?thesis
    unfolding compareSnapshots_def p r s d m max3_zero Let_def using p by simp
qed

end
